theory Spec2Isabelle
  imports Complex_Main
begin

section \<open>Python values used by the GOAT (LibraryThing) scraper\<close>

text \<open>
  Strings are \<^typ>\<open>string\<close>; a character stands for a code point below 256. In that range
  the decimal digits matched by the regular expression class \<^verbatim>\<open>\d\<close> are \<^verbatim>\<open>0\<close> to \<^verbatim>\<open>9\<close>,
  and the characters removed by \<^verbatim>\<open>str.strip()\<close> are the twelve listed in \<open>is_space\<close>.
\<close>

definition is_digit :: "char \<Rightarrow> bool" where
  "is_digit c = (c \<in> set ''0123456789'')"

definition is_space :: "char \<Rightarrow> bool" where
  "is_space c = (c \<in> set [CHR 0x09, CHR 0x0A, CHR 0x0B, CHR 0x0C, CHR 0x0D, CHR 0x1C,
                            CHR 0x1D, CHR 0x1E, CHR 0x1F, CHR 0x20, CHR 0x85, CHR 0xA0])"

text \<open>\<^verbatim>\<open>s.strip()\<close>\<close>

definition strip :: "string \<Rightarrow> string" where
  "strip s = rev (dropWhile is_space (rev (dropWhile is_space s)))"

text \<open>\<^verbatim>\<open>s.startswith(p)\<close>\<close>

definition startswith :: "string \<Rightarrow> string \<Rightarrow> bool" where
  "startswith s p = (take (length p) s = p)"

text \<open>
  Truth value of an optional string or list: \<^verbatim>\<open>None\<close>, \<^verbatim>\<open>''\<close> and \<^verbatim>\<open>[]\<close> are false.
\<close>

definition truthy :: "'a list option \<Rightarrow> bool" where
  "truthy v = (case v of None \<Rightarrow> False | Some s \<Rightarrow> s \<noteq> [])"

text \<open>\<^verbatim>\<open>a or b\<close> on such values.\<close>

definition py_or :: "'a list option \<Rightarrow> 'a list option \<Rightarrow> 'a list option" where
  "py_or a b = (if truthy a then a else b)"

text \<open>
  A dictionary slot: the key is absent, maps to \<^verbatim>\<open>None\<close>, or maps to a value.
  \<open>dict_get\<close> is \<^verbatim>\<open>d.get(k)\<close> and \<open>dict_get_default\<close> is \<^verbatim>\<open>d.get(k, default)\<close>.
\<close>

datatype 'a field = Absent | Null | Val 'a

definition dict_get :: "'a field \<Rightarrow> 'a option" where
  "dict_get f = (case f of Val v \<Rightarrow> Some v | _ \<Rightarrow> None)"

definition dict_get_default :: "'a field \<Rightarrow> 'a \<Rightarrow> 'a option" where
  "dict_get_default f d = (case f of Absent \<Rightarrow> Some d | Null \<Rightarrow> None | Val v \<Rightarrow> Some v)"

text \<open>
  A \<^verbatim>\<open>datetime\<close> is kept as its POSIX time in seconds together with the text that
  \<^verbatim>\<open>isoformat()\<close> gives for it.
\<close>

record datetime =
  dt_posix :: real
  dt_isoformat :: string

text \<open>Instances of \<^verbatim>\<open>Exception\<close>, each with its \<^verbatim>\<open>str()\<close>.\<close>

datatype exn =
    ParseError string
  | HTTPStatusError string
  | TimeoutException string
  | KeyError string
  | OtherError string

fun exn_str :: "exn \<Rightarrow> string" where
  "exn_str (ParseError m) = m"
| "exn_str (HTTPStatusError m) = m"
| "exn_str (TimeoutException m) = m"
| "exn_str (KeyError m) = m"
| "exn_str (OtherError m) = m"

section \<open>Source name and work identifiers\<close>

definition get_source_name :: string where
  "get_source_name = ''goat''"

text \<open>
  \<^verbatim>\<open>_extract_work_id\<close>: \<^verbatim>\<open>re.search(r'/work/(\d+)', url)\<close> and group 1 of the match. The search
  takes the leftmost position at which \<^verbatim>\<open>/work/\<close> is followed by a digit; \<^verbatim>\<open>\d+\<close> is greedy.
\<close>

fun extract_work_id :: "string \<Rightarrow> string option" where
  "extract_work_id [] = None"
| "extract_work_id (c # cs) =
     (if startswith (c # cs) ''/work/'' \<and> takeWhile is_digit (drop 6 (c # cs)) \<noteq> []
      then Some (takeWhile is_digit (drop 6 (c # cs)))
      else extract_work_id cs)"

section \<open>Work data and the canonical product record\<close>

datatype stamp = StampStr string | StampDatetime datetime

text \<open>
  The \<^verbatim>\<open>work_data\<close> dictionary: the nine keys written by \<^verbatim>\<open>_parse_xml_response\<close> and the
  \<^verbatim>\<open>last_updated\<close> key read by \<^verbatim>\<open>_create_product_dict\<close>, each with the type of value the
  scraper stores under it.
\<close>

record work_data =
  wd_work_id :: "string field"
  wd_title :: "string field"
  wd_author :: "string field"
  wd_description :: "string field"
  wd_image_url :: "string field"
  wd_tags :: "string list field"
  wd_language :: "string field"
  wd_publication_year :: "string field"
  wd_url :: "string field"
  wd_last_updated :: "stamp field"

record product =
  p_name :: "string option"
  p_description :: "string option"
  p_source :: string
  p_url :: "string option"
  p_image :: "string option"
  p_type :: string
  p_external_id :: "string option"
  p_tags :: "string list option"
  p_scraped_at :: string
  p_source_last_updated :: "string option"

text \<open>The three steps that compose the description in \<^verbatim>\<open>_create_product_dict\<close>.\<close>

definition describe_author :: "string option \<Rightarrow> string option \<Rightarrow> string option" where
  "describe_author author description =
     (case (author, description) of
        (Some a, Some d) \<Rightarrow>
          (if a \<noteq> [] \<and> d \<noteq> [] then Some (''By '' @ a @ [CHR 0x0A, CHR 0x0A] @ d)
           else if a \<noteq> [] then Some (''By '' @ a)
           else description)
      | (Some a, None) \<Rightarrow> (if a \<noteq> [] then Some (''By '' @ a) else description)
      | (None, _) \<Rightarrow> description)"

definition describe_year :: "string option \<Rightarrow> string option \<Rightarrow> string option" where
  "describe_year year description =
     (case year of
        Some y \<Rightarrow>
          (if y \<noteq> [] then
             (case description of
                Some d \<Rightarrow>
                  (if d \<noteq> [] then Some (d @ [CHR 0x0A, CHR 0x0A] @ ''Published: '' @ y)
                   else Some (''Published: '' @ y))
              | None \<Rightarrow> Some (''Published: '' @ y))
           else description)
      | None \<Rightarrow> description)"

definition describe_language :: "string option \<Rightarrow> string option \<Rightarrow> string option" where
  "describe_language lang description =
     (case lang of
        Some l \<Rightarrow>
          (if l \<noteq> [] then
             (case description of
                Some d \<Rightarrow>
                  (if d \<noteq> [] then Some (d @ [CHR 0x0A] @ ''Language: '' @ l)
                   else Some (''Language: '' @ l))
              | None \<Rightarrow> Some (''Language: '' @ l))
           else description)
      | None \<Rightarrow> description)"

definition last_updated_text :: "stamp option \<Rightarrow> string option" where
  "last_updated_text v =
     (case v of
        None \<Rightarrow> None
      | Some (StampStr s) \<Rightarrow> (if s \<noteq> [] then Some s else None)
      | Some (StampDatetime d) \<Rightarrow> Some (dt_isoformat d))"

text \<open>
  \<^verbatim>\<open>_create_product_dict(work_data, source_url)\<close>; \<open>now\<close> is the reading of
  \<^verbatim>\<open>datetime.now(UTC)\<close> taken by the call.
\<close>

definition create_product_dict :: "work_data \<Rightarrow> string option \<Rightarrow> datetime \<Rightarrow> product" where
  "create_product_dict wd source_url now =
     (let title = dict_get_default (wd_title wd) ''Untitled'';
          author = dict_get (wd_author wd);
          description = describe_author author (dict_get (wd_description wd));
          description = describe_year (dict_get (wd_publication_year wd)) description;
          description = describe_language (dict_get (wd_language wd)) description;
          source_last_updated = last_updated_text (dict_get (wd_last_updated wd))
      in \<lparr> p_name = title,
           p_description = description,
           p_source = ''GOAT'',
           p_url = py_or source_url (dict_get (wd_url wd)),
           p_image = dict_get (wd_image_url wd),
           p_type = ''Book'',
           p_external_id = dict_get (wd_work_id wd),
           p_tags = dict_get_default (wd_tags wd) [],
           p_scraped_at = dt_isoformat now,
           p_source_last_updated = source_last_updated \<rparr>)"

section \<open>Parsing the LibraryThing response\<close>

text \<open>
  An \<^verbatim>\<open>xml.etree.ElementTree\<close> element: tag, text (\<^verbatim>\<open>None\<close> when the element has none) and
  child elements in document order.
\<close>

datatype element = Element (el_tag: string) (el_text: "string option") (el_children: "element list")

text \<open>\<^verbatim>\<open>e.find(tag)\<close>: the first direct child with that tag.\<close>

definition find_el :: "element \<Rightarrow> string \<Rightarrow> element option" where
  "find_el e t = List.find (\<lambda>c. el_tag c = t) (el_children e)"

text \<open>\<^verbatim>\<open>e.findall(tag)\<close>: the direct children with that tag, in document order.\<close>

definition findall :: "element \<Rightarrow> string \<Rightarrow> element list" where
  "findall e t = filter (\<lambda>c. el_tag c = t) (el_children e)"

text \<open>
  \<^verbatim>\<open>e.findtext(tag, default)\<close>: the text of the first direct child with that tag, the empty
  string when that child has no text, the default when there is no such child.
\<close>

definition findtext :: "element \<Rightarrow> string \<Rightarrow> string \<Rightarrow> string" where
  "findtext e t d =
     (case find_el e t of
        None \<Rightarrow> d
      | Some c \<Rightarrow> (case el_text c of None \<Rightarrow> [] | Some s \<Rightarrow> s))"

text \<open>The loop over the \<^verbatim>\<open>description\<close> elements: the first non-blank text, stripped.\<close>

fun first_description :: "element list \<Rightarrow> string option" where
  "first_description [] = None"
| "first_description (desc_elem # rest) =
     (case el_text desc_elem of
        None \<Rightarrow> first_description rest
      | Some desc_text \<Rightarrow>
          (if desc_text \<noteq> [] \<and> strip desc_text \<noteq> [] then Some (strip desc_text)
           else first_description rest))"

text \<open>The loop over the \<^verbatim>\<open>cover\<close> elements: the first one with a non-blank \<^verbatim>\<open>id\<close>.\<close>

fun first_cover :: "element list \<Rightarrow> string option" where
  "first_cover [] = None"
| "first_cover (cover_elem # rest) =
     (let cover_id = strip (findtext cover_elem ''id'' [])
      in if cover_id \<noteq> [] then Some (''https://covers.librarything.com/pics/'' @ cover_id @ ''l'')
         else first_cover rest)"

text \<open>The names of the \<^verbatim>\<open>tag\<close> children of \<^verbatim>\<open>populartags\<close>, blank names dropped.\<close>

definition popular_tag_names :: "element \<Rightarrow> string list" where
  "popular_tag_names work =
     (case find_el work ''populartags'' of
        None \<Rightarrow> []
      | Some popular_tags \<Rightarrow>
          filter (\<lambda>tag_name. tag_name \<noteq> [])
            (map (\<lambda>tag_elem. strip (findtext tag_elem ''name'' [])) (findall popular_tags ''tag'')))"

text \<open>\<^verbatim>\<open>x or y\<close> on two strings.\<close>

definition str_or :: "string \<Rightarrow> string \<Rightarrow> string" where
  "str_or x y = (if x \<noteq> [] then x else y)"

definition opt_field :: "'a option \<Rightarrow> 'a field" where
  "opt_field v = (case v of None \<Rightarrow> Null | Some x \<Rightarrow> Val x)"

text \<open>
  \<^verbatim>\<open>_parse_xml_response(xml_text, work_id)\<close>. The first argument is the outcome of
  \<^verbatim>\<open>ET.fromstring(xml_text)\<close>: the root element, or the exception it raised. Both handlers
  (\<^verbatim>\<open>ET.ParseError\<close> and \<^verbatim>\<open>Exception\<close>) return \<^verbatim>\<open>None\<close>.
\<close>

definition parse_xml_response :: "exn + element \<Rightarrow> string \<Rightarrow> work_data option" where
  "parse_xml_response parsed work_id =
     (case parsed of
        Inl e \<Rightarrow> None
      | Inr xml_root \<Rightarrow>
          (if find_el xml_root ''error'' \<noteq> None then None
           else case find_el xml_root ''work'' of
             None \<Rightarrow> None
           | Some work \<Rightarrow>
               (let title = strip (findtext work ''title'' [])
                in if title = [] then None
                   else
                     (let author =
                            (case find_el work ''author'' of
                               None \<Rightarrow> None
                             | Some author_elem \<Rightarrow>
                                 Some (str_or (strip (findtext author_elem ''name'' []))
                                              (strip (findtext author_elem ''authorname'' []))));
                          description = first_description (findall work ''description'');
                          image_url = first_cover (findall work ''cover'');
                          tags = popular_tag_names work;
                          language = strip (findtext work ''language'' []);
                          publication_year = strip (findtext work ''publicationyear'' [])
                      in Some \<lparr> wd_work_id = Val work_id,
                                wd_title = Val title,
                                wd_author = opt_field author,
                                wd_description = opt_field description,
                                wd_image_url = opt_field image_url,
                                wd_tags = Val tags,
                                wd_language = Val language,
                                wd_publication_year = Val publication_year,
                                wd_url = Val (''https://www.librarything.com/work/'' @ work_id),
                                wd_last_updated = Absent \<rparr>))))"

section \<open>The scraper's collaborators\<close>

text \<open>An HTTP response: status code and body text.\<close>

record response =
  status_code :: int
  resp_text :: string

text \<open>
  A row of \<^verbatim>\<open>scraper_search_terms\<close> (a column may hold \<^verbatim>\<open>NULL\<close>), and the dictionary
  that \<^verbatim>\<open>_product_exists\<close> returns for an existing product.
\<close>

type_synonym term_row = "(string \<times> string option) list"
type_synonym product_row = "(string \<times> string) list"

definition row_get :: "term_row \<Rightarrow> string \<Rightarrow> string option" where
  "row_get item k = (case map_of item k of None \<Rightarrow> None | Some v \<Rightarrow> v)"

text \<open>
  Everything \<^verbatim>\<open>GOATScraper\<close> calls outside its own file, over a state \<open>'w\<close> of the outside
  world. A call returns its outcome (\<open>Inl\<close> is a raised exception) and the next state.
  \<^item> \<open>utcnow\<close>: \<^verbatim>\<open>datetime.now(UTC)\<close>;
  \<^item> \<open>fromstring\<close>: \<^verbatim>\<open>ET.fromstring\<close>;
  \<^item> \<open>throttle_request\<close>: \<^verbatim>\<open>BaseScraper._throttle_request\<close>;
  \<^item> \<open>http_get\<close>: \<^verbatim>\<open>self.client.get(url, params=...)\<close>;
  \<^item> \<open>select_search_terms\<close>: the query on \<^verbatim>\<open>scraper_search_terms\<close> for a platform,
    giving \<^verbatim>\<open>response.data\<close> (empty when it is \<^verbatim>\<open>None\<close>);
  \<^item> \<open>product_exists\<close>, \<open>create_product\<close>, \<open>update_product\<close>: the
    \<^verbatim>\<open>BaseScraper\<close> methods \<^verbatim>\<open>_product_exists\<close>, \<^verbatim>\<open>_create_product\<close>, \<^verbatim>\<open>_update_product\<close>.
\<close>

record 'w backend =
  utcnow :: "'w \<Rightarrow> datetime"
  fromstring :: "string \<Rightarrow> exn + element"
  throttle_request :: "'w \<Rightarrow> (exn + unit) \<times> 'w"
  http_get :: "'w \<Rightarrow> string \<Rightarrow> (string \<times> string) list \<Rightarrow> (exn + response) \<times> 'w"
  select_search_terms :: "'w \<Rightarrow> string \<Rightarrow> (exn + term_row list) \<times> 'w"
  product_exists :: "'w \<Rightarrow> string \<Rightarrow> (exn + product_row option) \<times> 'w"
  create_product :: "'w \<Rightarrow> product \<Rightarrow> (exn + bool) \<times> 'w"
  update_product :: "'w \<Rightarrow> string \<Rightarrow> product \<Rightarrow> (exn + bool) \<times> 'w"

section \<open>Fetching one work\<close>

definition API_BASE_URL :: string where
  "API_BASE_URL = ''https://www.librarything.com/services/rest/1.1''"

text \<open>
  \<^verbatim>\<open>_fetch_work_details(work_id)\<close>. Every exception is handled inside the method
  (\<^verbatim>\<open>httpx.HTTPStatusError\<close>, \<^verbatim>\<open>httpx.TimeoutException\<close>, and \<^verbatim>\<open>Exception\<close> around the whole
  body), each handler returning \<^verbatim>\<open>None\<close>.
\<close>

definition fetch_work_details ::
  "'w backend \<Rightarrow> string option \<Rightarrow> string \<Rightarrow> 'w \<Rightarrow> work_data option \<times> 'w" where
  "fetch_work_details b api_key work_id w =
     (case api_key of
        None \<Rightarrow> (None, w)
      | Some key \<Rightarrow>
          (if key = [] then (None, w)
           else case throttle_request b w of
             (Inl e, w1) \<Rightarrow> (None, w1)
           | (Inr u, w1) \<Rightarrow>
               (case http_get b w1 (API_BASE_URL @ ''/'')
                       [(''method'', ''librarything.ck.getwork''), (''id'', work_id), (''apikey'', key)] of
                  (Inl e, w2) \<Rightarrow> (None, w2)
                | (Inr resp, w2) \<Rightarrow>
                    (if status_code resp \<noteq> 200 then (None, w2)
                     else (parse_xml_response (fromstring b (resp_text resp)) work_id, w2)))))"

section \<open>The bulk scrape\<close>

text \<open>The run report (\<^verbatim>\<open>results\<close>); an absent \<^verbatim>\<open>message\<close> or \<^verbatim>\<open>error_message\<close> key is \<open>None\<close>.\<close>

record report =
  r_source :: string
  products_found :: int
  products_added :: int
  products_updated :: int
  duration_seconds :: real
  status :: string
  message :: "string option"
  error_message :: "string option"

text \<open>\<^verbatim>\<open>str(n)\<close> for an integer, used in the final message.\<close>

fun str_nat :: "nat \<Rightarrow> string" where
  "str_nat n =
     (if n < 10 then [char_of (48 + n)]
      else str_nat (n div 10) @ [char_of (48 + n mod 10)])"

declare str_nat.simps [simp del]

definition str_int :: "int \<Rightarrow> string" where
  "str_int i = (if i < 0 then CHR ''-'' # str_nat (nat (- i)) else str_nat (nat i))"

text \<open>
  The body of the per-target \<^verbatim>\<open>try\<close> (one iteration of the loop in \<^verbatim>\<open>scrape\<close>), in two
  parts. \<open>product_url_of\<close> is \<^verbatim>\<open>product_payload.get('url') or f".../work/{work_id}"\<close>.
  \<open>store_product\<close> is the part from the existence check on: it returns the exception
  that left the \<^verbatim>\<open>try\<close> body, if any, the counters and the next state. A target is a string:
  \<^verbatim>\<open>isinstance(target, str)\<close> holds and \<^verbatim>\<open>str(target)\<close> is the target.
\<close>

definition product_url_of :: "string \<Rightarrow> product \<Rightarrow> string" where
  "product_url_of work_id product_payload =
     (case p_url product_payload of
        None \<Rightarrow> ''https://www.librarything.com/work/'' @ work_id
      | Some u \<Rightarrow> str_or u (''https://www.librarything.com/work/'' @ work_id))"

definition store_product ::
  "'w backend \<Rightarrow> string \<Rightarrow> product \<Rightarrow> report \<Rightarrow> 'w \<Rightarrow> exn option \<times> report \<times> 'w" where
  "store_product b work_id product_payload results w =
     (let product_url = product_url_of work_id product_payload
      in case product_exists b w product_url of
           (Inl e, w1) \<Rightarrow> (Some e, results, w1)
         | (Inr existing, w1) \<Rightarrow>
             (if truthy existing then
                (case map_of (case existing of Some row \<Rightarrow> row | None \<Rightarrow> []) ''id'' of
                   None \<Rightarrow> (Some (KeyError ''id''), results, w1)
                 | Some product_id \<Rightarrow>
                     (case update_product b w1 product_id product_payload of
                        (Inl e, w2) \<Rightarrow> (Some e, results, w2)
                      | (Inr success, w2) \<Rightarrow>
                          (let results1 = (if success
                                           then results\<lparr>products_updated := products_updated results + 1\<rparr>
                                           else results)
                           in (None, results1\<lparr>products_found := products_found results1 + 1\<rparr>, w2))))
              else
                (case create_product b w1 product_payload of
                   (Inl e, w2) \<Rightarrow> (Some e, results, w2)
                 | (Inr success, w2) \<Rightarrow>
                     (let results1 = (if success
                                      then results\<lparr>products_added := products_added results + 1\<rparr>
                                      else results)
                      in (None, results1\<lparr>products_found := products_found results1 + 1\<rparr>, w2)))))"

definition target_source_url :: "string \<Rightarrow> string option" where
  "target_source_url target = (if startswith target ''http'' then Some target else None)"

definition target_work_id :: "string \<Rightarrow> string option" where
  "target_work_id target =
     (if startswith target ''http'' then extract_work_id target else Some (strip target))"

definition process_target ::
  "'w backend \<Rightarrow> string option \<Rightarrow> string \<Rightarrow> report \<Rightarrow> 'w \<Rightarrow> exn option \<times> report \<times> 'w" where
  "process_target b api_key target results w =
     (let source_url = target_source_url target;
          work_id = target_work_id target
      in case work_id of
           None \<Rightarrow> (None, results, w)
         | Some wid \<Rightarrow>
             (if wid = [] then (None, results, w)
              else case fetch_work_details b api_key wid w of
                (None, w1) \<Rightarrow> (None, results, w1)
              | (Some work_data, w1) \<Rightarrow>
                  store_product b wid (create_product_dict work_data source_url (utcnow b w1))
                    results w1))"

text \<open>
  The \<^verbatim>\<open>for i, target in enumerate(targets)\<close> loop from index \<open>i\<close> on: the test-mode
  \<^verbatim>\<open>break\<close>, then the \<^verbatim>\<open>try\<close> body, whose \<^verbatim>\<open>except Exception\<close> handler continues with the
  next target.
\<close>

fun scrape_loop ::
  "'w backend \<Rightarrow> string option \<Rightarrow> bool \<Rightarrow> int \<Rightarrow> nat \<Rightarrow> string list \<Rightarrow> report \<Rightarrow> 'w
   \<Rightarrow> report \<times> 'w" where
  "scrape_loop b api_key test_mode test_limit i [] results w = (results, w)"
| "scrape_loop b api_key test_mode test_limit i (target # rest) results w =
     (if test_mode \<and> test_limit \<le> int i then (results, w)
      else case process_target b api_key target results w of
             (raised, results1, w1) \<Rightarrow>
               scrape_loop b api_key test_mode test_limit (Suc i) rest results1 w1)"

text \<open>
  The targets: explicit \<^verbatim>\<open>urls\<close> first, otherwise the \<^verbatim>\<open>search_term\<close> column of the rows of
  \<^verbatim>\<open>scraper_search_terms\<close> for platform \<^verbatim>\<open>goat\<close>; a failing query leaves the list empty.
\<close>

definition load_targets :: "'w backend \<Rightarrow> string list option \<Rightarrow> 'w \<Rightarrow> string list \<times> 'w" where
  "load_targets b urls w =
     (if truthy urls then (case urls of Some us \<Rightarrow> us | None \<Rightarrow> [], w)
      else case select_search_terms b w ''goat'' of
             (Inl e, w1) \<Rightarrow> ([], w1)
           | (Inr data, w1) \<Rightarrow>
               (if data \<noteq> []
                then (List.map_filter
                        (\<lambda>item. case row_get item ''search_term'' of
                                   None \<Rightarrow> None
                                 | Some s \<Rightarrow> (if s \<noteq> [] then Some s else None)) data, w1)
                else ([], w1)))"

definition initial_results :: report where
  "initial_results =
     \<lparr> r_source = ''GOAT'', products_found = 0, products_added = 0, products_updated = 0,
       duration_seconds = 0, status = ''success'', message = None, error_message = None \<rparr>"

definition total_seconds :: "datetime \<Rightarrow> datetime \<Rightarrow> real" where
  "total_seconds later earlier = dt_posix later - dt_posix earlier"

text \<open>The report built by the outer \<^verbatim>\<open>except Exception\<close> handler of \<^verbatim>\<open>scrape\<close>.\<close>

definition scrape_error_report :: "exn \<Rightarrow> real \<Rightarrow> report" where
  "scrape_error_report e duration =
     \<lparr> r_source = ''GOAT'', products_found = 0, products_added = 0, products_updated = 0,
       duration_seconds = duration, status = ''error'', message = None,
       error_message = Some (''Scraper error: '' @ exn_str e
                             @ ''. Note: LibraryThing API may be blocked by CloudFlare.'') \<rparr>"

text \<open>
  The body of the outer \<^verbatim>\<open>try\<close> of \<^verbatim>\<open>scrape\<close>. Each call that can raise sits inside a nested
  handler (the target query, the per-target \<^verbatim>\<open>try\<close>, \<^verbatim>\<open>_fetch_work_details\<close>), so the
  body itself returns a report on every path.
\<close>

definition scrape_try ::
  "'w backend \<Rightarrow> string option \<Rightarrow> bool \<Rightarrow> int \<Rightarrow> string list option \<Rightarrow> datetime \<Rightarrow> 'w
   \<Rightarrow> (exn + report) \<times> 'w" where
  "scrape_try b api_key test_mode test_limit urls start_time w =
     (if \<not> truthy api_key then
        (Inr (initial_results\<lparr>status := ''warning'',
                message := Some ''LibraryThing API key not configured. Cannot scrape without API key. Configure in oauth_configs table with platform=goat''\<rparr>), w)
      else case load_targets b urls w of
        (targets, w1) \<Rightarrow>
          (if targets = [] then
             (Inr (initial_results\<lparr>status := ''warning'',
                     message := Some ''No GOAT targets configured. Provide LibraryThing URLs or work IDs via urls argument or scraper_search_terms (platform=goat).'',
                     duration_seconds := total_seconds (utcnow b w1) start_time\<rparr>), w1)
           else case scrape_loop b api_key test_mode test_limit 0 targets initial_results w1 of
             (results, w2) \<Rightarrow>
               (let results1 = results\<lparr>duration_seconds := total_seconds (utcnow b w2) start_time\<rparr>
                in if products_found results1 = 0 then
                     (Inr (results1\<lparr>status := ''warning'',
                             message := Some ''No works could be fetched. LibraryThing API is likely blocked by CloudFlare. Use scrape_url() for individual books instead.''\<rparr>), w2)
                   else
                     (Inr (results1\<lparr>message := Some (''Scraped '' @ str_int (products_found results1)
                                                       @ '' works (API may have limited access)'')\<rparr>), w2))))"

text \<open>
  The outer \<^verbatim>\<open>except Exception\<close> clause of \<^verbatim>\<open>scrape\<close>, applied to the outcome of the
  \<^verbatim>\<open>try\<close> body.
\<close>

definition scrape_except ::
  "'w backend \<Rightarrow> datetime \<Rightarrow> (exn + report) \<times> 'w \<Rightarrow> (exn + report) \<times> 'w" where
  "scrape_except b start_time outcome =
     (case outcome of
        (Inl e, w1) \<Rightarrow> (Inr (scrape_error_report e (total_seconds (utcnow b w1) start_time)), w1)
      | (Inr results, w1) \<Rightarrow> (Inr results, w1))"

text \<open>\<^verbatim>\<open>scrape(test_mode, test_limit, urls)\<close>.\<close>

definition scrape ::
  "'w backend \<Rightarrow> string option \<Rightarrow> bool \<Rightarrow> int \<Rightarrow> string list option \<Rightarrow> 'w
   \<Rightarrow> (exn + report) \<times> 'w" where
  "scrape b api_key test_mode test_limit urls w =
     scrape_except b (utcnow b w)
       (scrape_try b api_key test_mode test_limit urls (utcnow b w) w)"

section \<open>A row store for the shared helpers\<close>

text \<open>
  The products table as rows of identifier and record, the search-term rows, whether the
  store answers, and the clock.
\<close>

record store =
  st_products :: "(string \<times> product) list"
  st_terms :: "term_row list"
  st_available :: bool
  st_now :: datetime

text \<open>
  Modelled from the spec: \<^verbatim>\<open>BaseScraper._product_exists\<close> (\<^verbatim>\<open>scrapers/base_scraper.py\<close> is
  not among the sources). Given a canonical url, query the row store for an existing
  product with that url.
\<close>

definition base_product_exists :: "store \<Rightarrow> string \<Rightarrow> (exn + product_row option) \<times> store" where
  "base_product_exists s url =
     (if \<not> st_available s then (Inr None, s)
      else case List.find (\<lambda>r. p_url (snd r) = Some url) (st_products s) of
             None \<Rightarrow> (Inr None, s)
           | Some r \<Rightarrow> (Inr (Some [(''id'', fst r), (''url'', url)]), s))"

text \<open>An identifier that no row carries yet: longer than every identifier in use.\<close>

definition fresh_id :: "string list \<Rightarrow> string" where
  "fresh_id ids = replicate (Suc (foldr (\<lambda>i m. max (length i) m) ids 0)) CHR ''0''"

text \<open>
  Modelled from the spec: \<^verbatim>\<open>BaseScraper._create_product\<close> (\<^verbatim>\<open>scrapers/base_scraper.py\<close> is
  not among the sources). Issue an insert; return a success flag; on row-store failure
  report failure rather than raising.
\<close>

definition base_create_product :: "store \<Rightarrow> product \<Rightarrow> (exn + bool) \<times> store" where
  "base_create_product s payload =
     (if \<not> st_available s then (Inr False, s)
      else (Inr True,
            s\<lparr>st_products := st_products s @ [(fresh_id (map fst (st_products s)), payload)]\<rparr>))"

text \<open>
  The merge of an update: a field that is \<^verbatim>\<open>None\<close> in the new record keeps the stored value.
\<close>

definition keep_old :: "'a option \<Rightarrow> 'a option \<Rightarrow> 'a option" where
  "keep_old new old = (case new of None \<Rightarrow> old | Some v \<Rightarrow> Some v)"

definition merge_product :: "product \<Rightarrow> product \<Rightarrow> product" where
  "merge_product old new =
     \<lparr> p_name = keep_old (p_name new) (p_name old),
       p_description = keep_old (p_description new) (p_description old),
       p_source = p_source new,
       p_url = keep_old (p_url new) (p_url old),
       p_image = keep_old (p_image new) (p_image old),
       p_type = p_type new,
       p_external_id = keep_old (p_external_id new) (p_external_id old),
       p_tags = keep_old (p_tags new) (p_tags old),
       p_scraped_at = p_scraped_at new,
       p_source_last_updated = keep_old (p_source_last_updated new) (p_source_last_updated old) \<rparr>"

text \<open>
  Modelled from the spec: \<^verbatim>\<open>BaseScraper._update_product\<close> (\<^verbatim>\<open>scrapers/base_scraper.py\<close> is
  not among the sources). Issue an update with the newly normalized fields, never
  destructive; return a success flag; on row-store failure report failure rather than
  raising.
\<close>

definition base_update_product :: "store \<Rightarrow> string \<Rightarrow> product \<Rightarrow> (exn + bool) \<times> store" where
  "base_update_product s product_id payload =
     (if \<not> st_available s then (Inr False, s)
      else (Inr True,
            s\<lparr>st_products :=
                 map (\<lambda>r. if fst r = product_id then (fst r, merge_product (snd r) payload) else r)
                   (st_products s)\<rparr>))"

text \<open>
  Modelled from the spec: \<^verbatim>\<open>BaseScraper._throttle_request\<close> (\<^verbatim>\<open>scrapers/base_scraper.py\<close> is
  not among the sources). It sleeps for the rest of the minimum interval and has no result.
\<close>

definition base_throttle_request :: "store \<Rightarrow> (exn + unit) \<times> store" where
  "base_throttle_request s = (Inr (), s)"

text \<open>
  The scraper over this store: \<open>upstream\<close> answers a request by its URL and parameters
  alone, \<open>xml\<close> reads a response body, and the search-term query returns the stored rows
  of the platform (or raises when the store does not answer).
\<close>

definition store_backend ::
  "(string \<Rightarrow> (string \<times> string) list \<Rightarrow> exn + response) \<Rightarrow> (string \<Rightarrow> exn + element)
   \<Rightarrow> store backend" where
  "store_backend upstream xml =
     \<lparr> utcnow = st_now,
       fromstring = xml,
       throttle_request = base_throttle_request,
       http_get = (\<lambda>s url params. (upstream url params, s)),
       select_search_terms =
         (\<lambda>s platform.
            if st_available s
            then (Inr (filter (\<lambda>r. row_get r ''platform'' = Some platform) (st_terms s)), s)
            else (Inl (OtherError ''row store unavailable''), s)),
       product_exists = base_product_exists,
       create_product = base_create_product,
       update_product = base_update_product \<rparr>"

text \<open>The identifier and the url of each stored row, in table order.\<close>

definition row_keys :: "store \<Rightarrow> (string \<times> string option) list" where
  "row_keys s = map (\<lambda>r. (fst r, p_url (snd r))) (st_products s)"

text \<open>A store that answers and whose rows have distinct identifiers.\<close>

definition store_ok :: "store \<Rightarrow> bool" where
  "store_ok s = (st_available s \<and> distinct (map fst (row_keys s)))"

text \<open>
  The url under which the loop body looks a target up, when the target resolves to a work
  identifier and the fetch of that work succeeds in state \<open>w\<close>; \<open>None\<close> when the target is
  skipped.
\<close>

definition fetched_url :: "'w backend \<Rightarrow> string option \<Rightarrow> 'w \<Rightarrow> string \<Rightarrow> string option" where
  "fetched_url b api_key w target =
     (case target_work_id target of
        None \<Rightarrow> None
      | Some wid \<Rightarrow>
          (if wid = [] then None
           else case fst (fetch_work_details b api_key wid w) of
             None \<Rightarrow> None
           | Some work_data \<Rightarrow>
               Some (product_url_of wid
                       (create_product_dict work_data (target_source_url target) (utcnow b w)))))"

text \<open>The targets the loop reaches: all of them, or the first \<^verbatim>\<open>test_limit\<close> in test mode.\<close>

definition attempted :: "bool \<Rightarrow> int \<Rightarrow> string list \<Rightarrow> string list" where
  "attempted test_mode test_limit targets =
     (if test_mode then take (nat test_limit) targets else targets)"

section \<open>Example documents and an example upstream\<close>

text \<open>
  Three response bodies as \<^verbatim>\<open>ET.fromstring\<close> reads them: a work, the upstream error of the
  test suite, and a response that carries both an error and a work.
\<close>

definition garden_doc :: element where
  "garden_doc = Element ''response'' None
     [Element ''work'' None
        [Element ''id'' (Some ''35356138'') [],
         Element ''title'' (Some ''The Curious Garden'') [],
         Element ''author'' None [Element ''name'' (Some ''Peter Brown'') []]]]"

definition error_doc :: element where
  "error_doc = Element ''response'' None
     [Element ''error'' None [Element ''message'' (Some ''Work not found'') []]]"

definition error_and_work_doc :: element where
  "error_and_work_doc = Element ''response'' None
     [Element ''error'' None [Element ''message'' (Some ''Rate limited'') []],
      Element ''work'' None [Element ''title'' (Some ''The Curious Garden'') []]]"

definition garden_xml :: string where
  "garden_xml = ''<response><work><id>35356138</id><title>The Curious Garden</title><author><name>Peter Brown</name></author></work></response>''"

definition error_xml :: string where
  "error_xml = ''<response><error><message>Work not found</message></error></response>''"

text \<open>An XML reader on these two bodies; any other text is taken as malformed.\<close>

definition example_xml :: "string \<Rightarrow> exn + element" where
  "example_xml body =
     (if body = garden_xml then Inr garden_doc
      else if body = error_xml then Inr error_doc
      else Inl (ParseError ''syntax error''))"

text \<open>
  An upstream that knows work 35356138, answers a request for work 1 with the error
  document, and times out otherwise.
\<close>

definition example_upstream :: "string \<Rightarrow> (string \<times> string) list \<Rightarrow> exn + response" where
  "example_upstream url params =
     (if map_of params ''id'' = Some ''35356138''
      then Inr \<lparr>status_code = 200, resp_text = garden_xml\<rparr>
      else if map_of params ''id'' = Some ''1''
      then Inr \<lparr>status_code = 200, resp_text = error_xml\<rparr>
      else Inl (TimeoutException ''timed out''))"

definition example_clock :: datetime where
  "example_clock = \<lparr>dt_posix = 1733011200, dt_isoformat = ''2024-12-01T00:00:00+00:00''\<rparr>"

definition later_clock :: datetime where
  "later_clock = \<lparr>dt_posix = 1733014800, dt_isoformat = ''2024-12-01T01:00:00+00:00''\<rparr>"

definition empty_store :: store where
  "empty_store = \<lparr>st_products = [], st_terms = [], st_available = True, st_now = example_clock\<rparr>"

text \<open>What \<^verbatim>\<open>_parse_xml_response\<close> returns for the first document and work 35356138.\<close>

definition garden_work :: work_data where
  "garden_work =
     \<lparr> wd_work_id = Val ''35356138'', wd_title = Val ''The Curious Garden'',
       wd_author = Val ''Peter Brown'', wd_description = Null, wd_image_url = Null,
       wd_tags = Val [], wd_language = Val [], wd_publication_year = Val [],
       wd_url = Val ''https://www.librarything.com/work/35356138'', wd_last_updated = Absent \<rparr>"

text \<open>A store whose writes are refused, and one that already holds work 35356138.\<close>

definition read_only_backend ::
  "(string \<Rightarrow> (string \<times> string) list \<Rightarrow> exn + response) \<Rightarrow> (string \<Rightarrow> exn + element)
   \<Rightarrow> store backend" where
  "read_only_backend upstream xml =
     (store_backend upstream xml)
       \<lparr> create_product := (\<lambda>s payload. (Inr False, s)),
         update_product := (\<lambda>s product_id payload. (Inr False, s)) \<rparr>"

definition garden_store :: store where
  "garden_store =
     \<lparr>st_products =
        [(''7'', \<lparr> p_name = Some ''The Curious Garden'', p_description = None, p_source = ''GOAT'',
                   p_url = Some ''https://www.librarything.com/work/35356138'', p_image = None,
                   p_type = ''Book'', p_external_id = Some ''35356138'', p_tags = Some [],
                   p_scraped_at = ''2024-11-01T00:00:00+00:00'', p_source_last_updated = None \<rparr>)],
      st_terms = [[(''platform'', Some ''goat''), (''search_term'', Some ''35356138'')]],
      st_available = True, st_now = example_clock\<rparr>"

text \<open>
  The store after a first run on work 35356138 from the empty store, the report of that
  run, and the store and the report after a second run started at a later time.
\<close>

definition once_store :: store where
  "once_store =
     \<lparr>st_products = [(''0'', create_product_dict garden_work None example_clock)],
      st_terms = [], st_available = True, st_now = example_clock\<rparr>"

definition twice_store :: store where
  "twice_store =
     \<lparr>st_products = [(''0'', create_product_dict garden_work None later_clock)],
      st_terms = [], st_available = True, st_now = later_clock\<rparr>"

definition first_report :: report where
  "first_report =
     \<lparr>r_source = ''GOAT'', products_found = 1, products_added = 1, products_updated = 0,
      duration_seconds = 0, status = ''success'',
      message = Some ''Scraped 1 works (API may have limited access)'', error_message = None\<rparr>"

definition second_report :: report where
  "second_report =
     \<lparr>r_source = ''GOAT'', products_found = 1, products_added = 0, products_updated = 1,
      duration_seconds = 0, status = ''success'',
      message = Some ''Scraped 1 works (API may have limited access)'', error_message = None\<rparr>"

text \<open>A backend whose existence check raises, over a world without state.\<close>

definition raising_backend :: "unit backend" where
  "raising_backend =
     \<lparr> utcnow = (\<lambda>w. example_clock),
       fromstring = example_xml,
       throttle_request = (\<lambda>w. (Inr (), w)),
       http_get = (\<lambda>w url params. (example_upstream url params, w)),
       select_search_terms = (\<lambda>w platform. (Inl (OtherError ''connection refused''), w)),
       product_exists = (\<lambda>w url. (Inl (OtherError ''connection refused''), w)),
       create_product = (\<lambda>w payload. (Inl (OtherError ''connection refused''), w)),
       update_product = (\<lambda>w product_id payload. (Inl (OtherError ''connection refused''), w)) \<rparr>"

section \<open>Exceptions that are not instances of Exception\<close>

text \<open>
  Every handler of the scraper is \<^verbatim>\<open>except Exception\<close> (or a subclass of it), so an exception
  that is not an instance of \<^verbatim>\<open>Exception\<close> passes each of them: \<^verbatim>\<open>asyncio.CancelledError\<close>
  at an \<^verbatim>\<open>await\<close>, \<^verbatim>\<open>KeyboardInterrupt\<close>, \<^verbatim>\<open>SystemExit\<close>. \<open>BaseExc\<close> carries the name of such
  an exception, \<open>Exc\<close> an instance of \<^verbatim>\<open>Exception\<close>.
\<close>

datatype raised = Exc exn | BaseExc string













text \<open>Lower case of the letters \<^verbatim>\<open>A\<close> to \<^verbatim>\<open>Z\<close>, to compare two tags up to letter case.\<close>

definition ascii_lower :: "string \<Rightarrow> string" where
  "ascii_lower s =
     map (\<lambda>c. case map_of (zip ''ABCDEFGHIJKLMNOPQRSTUVWXYZ'' ''abcdefghijklmnopqrstuvwxyz'') c of
                 None \<Rightarrow> c | Some l \<Rightarrow> l) s"

section \<open>Properties of the source tag\<close>

text \<open>
  C10. Whatever the work data and the source URL, the record built by
  \<^verbatim>\<open>_create_product_dict\<close> has source \<^verbatim>\<open>GOAT\<close>, type \<^verbatim>\<open>Book\<close> and the ISO text of the
  current time as \<^verbatim>\<open>scraped_at\<close>, while \<^verbatim>\<open>get_source_name()\<close> is \<^verbatim>\<open>goat\<close>: the stored source
  tag and the declared source name are different strings that agree up to letter case.
\<close>

theorem create_product_dict_source_tag:
  "p_source (create_product_dict wd source_url now) = ''GOAT''
   \<and> p_type (create_product_dict wd source_url now) = ''Book''
   \<and> p_scraped_at (create_product_dict wd source_url now) = dt_isoformat now
   \<and> get_source_name = ''goat''
   \<and> p_source (create_product_dict wd source_url now) \<noteq> get_source_name
   \<and> ascii_lower (p_source (create_product_dict wd source_url now)) = get_source_name"
  by (simp add: create_product_dict_def get_source_name_def ascii_lower_def Let_def)

section \<open>Work identifier extraction\<close>


lemma takeWhile_digits_run:
  "\<forall>d\<in>set ds. is_digit d \<Longrightarrow> post = [] \<or> \<not> is_digit (hd post) \<Longrightarrow>
   takeWhile is_digit (ds @ post) = ds"
  by (cases post) (auto simp: takeWhile_append2 takeWhile_eq_all_conv)

lemma extract_work_id_here:
  assumes "ds \<noteq> []" "\<forall>d\<in>set ds. is_digit d" "post = [] \<or> \<not> is_digit (hd post)"
  shows "extract_work_id (''/work/'' @ ds @ post) = Some ds"
  using assms takeWhile_digits_run[OF assms(2,3)] by (simp add: startswith_def)

lemma startswith_split: "startswith s p \<Longrightarrow> s = p @ drop (length p) s"
  by (metis append_take_drop_id startswith_def)

lemma work_match_split:
  assumes "startswith s ''/work/'' \<and> takeWhile is_digit (drop 6 s) \<noteq> []"
  shows "\<exists>d q. s = ''/work/'' @ d # q \<and> is_digit d"
proof -
  from assms have "takeWhile is_digit (drop 6 s) \<noteq> []" by blast
  then obtain d q where dq: "drop 6 s = d # q" "is_digit d"
    by (cases "drop 6 s") (auto split: if_splits)
  have l: "length ''/work/'' = 6" by simp
  from assms have "s = ''/work/'' @ drop (length ''/work/'') s" using startswith_split by blast
  then have "s = ''/work/'' @ drop 6 s" unfolding l .
  with dq show ?thesis by metis
qed

lemma extract_work_id_skip:
  assumes "\<not> (\<exists>d q. c # cs = ''/work/'' @ d # q \<and> is_digit d)"
  shows "extract_work_id (c # cs) = extract_work_id cs"
proof -
  have "\<not> (startswith (c # cs) ''/work/'' \<and> takeWhile is_digit (drop 6 (c # cs)) \<noteq> [])"
  proof
    assume h: "startswith (c # cs) ''/work/'' \<and> takeWhile is_digit (drop 6 (c # cs)) \<noteq> []"
    from work_match_split[OF h] assms show False by blast
  qed
  then show ?thesis by (simp only: extract_work_id.simps if_False)
qed

lemma head_match_prefix:
  assumes "7 \<le> length X"
  shows "(startswith (X @ R) ''/work/'' \<and> takeWhile is_digit (drop 6 (X @ R)) \<noteq> [])
       = (startswith X ''/work/'' \<and> takeWhile is_digit (drop 6 X) \<noteq> [])"
proof -
  from assms have a: "startswith (X @ R) ''/work/'' = startswith X ''/work/''"
    by (simp add: startswith_def)
  from assms obtain y ys where d: "drop 6 X = y # ys"
    by (cases "drop 6 X") auto
  from assms have "drop 6 (X @ R) = drop 6 X @ R" by simp
  with d have b: "(takeWhile is_digit (drop 6 (X @ R)) \<noteq> []) = (takeWhile is_digit (drop 6 X) \<noteq> [])"
    by simp
  from a b show ?thesis by (simp only:)
qed

lemma extract_work_id_first:
  assumes "ds \<noteq> []" "\<forall>d\<in>set ds. is_digit d" "post = [] \<or> \<not> is_digit (hd post)"
    and "extract_work_id (pre @ ''/work/'') = None"
  shows "extract_work_id (pre @ ''/work/'' @ ds @ post) = Some ds"
  using assms(4)
proof (induction pre)
  case Nil
  show ?case using extract_work_id_here[OF assms(1-3)] by simp
next
  case (Cons c pre)
  let ?X = "c # pre @ ''/work/''"
  let ?R = "ds @ post"
  let ?C = "\<lambda>s. startswith s ''/work/'' \<and> takeWhile is_digit (drop 6 s) \<noteq> []"
  have len: "7 \<le> length ?X" by simp
  from Cons.prems have n: "extract_work_id ?X = None" by simp
  have nc: "\<not> ?C ?X"
  proof
    assume "?C ?X"
    then have "extract_work_id ?X \<noteq> None"
      by (simp only: extract_work_id.simps if_True option.distinct simp_thms)
    with n show False by blast
  qed
  then have "extract_work_id ?X = extract_work_id (pre @ ''/work/'')"
    by (simp only: extract_work_id.simps if_False)
  with n have tl: "extract_work_id (pre @ ''/work/'') = None" by simp
  from nc head_match_prefix[OF len, of ?R] have "\<not> ?C (c # (pre @ ''/work/'') @ ?R)"
    by simp
  then have "extract_work_id (c # (pre @ ''/work/'') @ ?R) = extract_work_id ((pre @ ''/work/'') @ ?R)"
    by (simp only: extract_work_id.simps if_False)
  with Cons.IH[OF tl] show ?case by simp
qed

lemma extract_work_id_None_iff:
  "extract_work_id url = None \<longleftrightarrow> \<not> (\<exists>p d q. url = p @ ''/work/'' @ d # q \<and> is_digit d)"
proof (induction url)
  case Nil
  then show ?case by simp
next
  case (Cons c cs)
  show ?case
  proof (cases "startswith (c # cs) ''/work/'' \<and> takeWhile is_digit (drop 6 (c # cs)) \<noteq> []")
    case True
    from work_match_split[OF True] obtain d q where "c # cs = [] @ ''/work/'' @ d # q" "is_digit d"
      by auto
    then have "\<exists>p d q. c # cs = p @ ''/work/'' @ d # q \<and> is_digit d" by blast
    moreover have "extract_work_id (c # cs) \<noteq> None"
      using True by (simp only: extract_work_id.simps if_True option.distinct simp_thms)
    ultimately show ?thesis by blast
  next
    case False
    then have e: "extract_work_id (c # cs) = extract_work_id cs"
      by (simp only: extract_work_id.simps if_False)
    have "(\<exists>p d q. c # cs = p @ ''/work/'' @ d # q \<and> is_digit d) \<longleftrightarrow> (\<exists>p d q. cs = p @ ''/work/'' @ d # q \<and> is_digit d)"
    proof
      assume "\<exists>p d q. c # cs = p @ ''/work/'' @ d # q \<and> is_digit d"
      then obtain p d q where h: "c # cs = p @ ''/work/'' @ d # q" "is_digit d" by blast
      show "\<exists>p d q. cs = p @ ''/work/'' @ d # q \<and> is_digit d"
      proof (cases p)
        case Nil
        with h have "c # cs = ''/work/'' @ d # q" by simp
        then have "startswith (c # cs) ''/work/'' \<and> takeWhile is_digit (drop 6 (c # cs)) \<noteq> []"
          using h(2) by (simp add: startswith_def)
        with False show ?thesis by blast
      next
        case (Cons c' p')
        with h have "cs = p' @ ''/work/'' @ d # q" by simp
        with h show ?thesis by blast
      qed
    next
      assume "\<exists>p d q. cs = p @ ''/work/'' @ d # q \<and> is_digit d"
      then obtain p d q where "cs = p @ ''/work/'' @ d # q" "is_digit d" by blast
      then have "c # cs = (c # p) @ ''/work/'' @ d # q" by simp
      with \<open>is_digit d\<close> show "\<exists>p d q. c # cs = p @ ''/work/'' @ d # q \<and> is_digit d" by blast
    qed
    with e Cons.IH show ?thesis by simp
  qed
qed

text \<open>
  C6. \<^verbatim>\<open>_extract_work_id\<close> resolves every URL shape to the work-level identifier. If the URL
  is \<open>pre\<close>, then \<^verbatim>\<open>/work/\<close>, then a non-empty run of digits \<open>ds\<close> that is not continued by
  a further digit, and no \<^verbatim>\<open>/work/<digit>\<close> occurs before that one, the result is \<open>ds\<close>. The
  result is \<^verbatim>\<open>None\<close> exactly when the URL has no \<^verbatim>\<open>/work/<digit>\<close> at all. The edition URL and
  the work URL of work 35356138 both give \<^verbatim>\<open>35356138\<close>.
\<close>

theorem extract_work_id_work_level:
  "(ds \<noteq> [] \<and> (\<forall>d\<in>set ds. is_digit d) \<and> (post = [] \<or> \<not> is_digit (hd post))
      \<and> \<not> (\<exists>p d q. pre @ ''/work/'' = p @ ''/work/'' @ d # q \<and> is_digit d)
    \<longrightarrow> extract_work_id (pre @ ''/work/'' @ ds @ post) = Some ds)
   \<and> (extract_work_id url = None
        \<longleftrightarrow> \<not> (\<exists>p d q. url = p @ ''/work/'' @ d # q \<and> is_digit d))
   \<and> extract_work_id ''https://www.librarything.com/work/35356138/book/302275636'' = Some ''35356138''
   \<and> extract_work_id ''https://www.librarything.com/work/35356138'' = Some ''35356138''"
proof (intro conjI impI)
  assume h: "ds \<noteq> [] \<and> (\<forall>d\<in>set ds. is_digit d) \<and> (post = [] \<or> \<not> is_digit (hd post))
      \<and> \<not> (\<exists>p d q. pre @ ''/work/'' = p @ ''/work/'' @ d # q \<and> is_digit d)"
  then have n: "\<not> (\<exists>p d q. pre @ ''/work/'' = p @ ''/work/'' @ d # q \<and> is_digit d)"
    by (elim conjE)
  have "extract_work_id (pre @ ''/work/'') = None"
    by (rule extract_work_id_None_iff[THEN iffD2, OF n])
  with h show "extract_work_id (pre @ ''/work/'' @ ds @ post) = Some ds"
    using extract_work_id_first[of ds post pre] by blast
next
  show "extract_work_id url = None
        \<longleftrightarrow> \<not> (\<exists>p d q. url = p @ ''/work/'' @ d # q \<and> is_digit d)"
    by (rule extract_work_id_None_iff)
next
  show "extract_work_id ''https://www.librarything.com/work/35356138/book/302275636'' = Some ''35356138''"
    by (simp add: startswith_def is_digit_def)
next
  show "extract_work_id ''https://www.librarything.com/work/35356138'' = Some ''35356138''"
    by (simp add: startswith_def is_digit_def)
qed

theorem extract_work_id_work_level_witness:
  "''35356138'' \<noteq> [] \<and> list_all is_digit ''35356138''
   \<and> \<not> is_digit (hd ''/book/302275636'')
   \<and> \<not> (\<exists>p d q. ''http://librarything.com'' @ ''/work/'' = p @ ''/work/'' @ d # q \<and> is_digit d)
   \<and> extract_work_id (''http://librarything.com'' @ ''/work/'' @ ''35356138'' @ ''/book/302275636'')
       = Some ''35356138''
   \<and> \<not> (\<exists>p d q. ''https://www.librarything.com/user/someuser'' = p @ ''/work/'' @ d # q \<and> is_digit d)
   \<and> extract_work_id ''https://www.librarything.com/user/someuser'' = None"
proof -
  have a: "''35356138'' \<noteq> [] \<and> (\<forall>d\<in>set ''35356138''. is_digit d)
   \<and> (''/book/302275636'' = [] \<or> \<not> is_digit (hd ''/book/302275636''))"
    by (simp add: is_digit_def)
  have "extract_work_id (''http://librarything.com'' @ ''/work/'') = None"
    by (simp add: startswith_def is_digit_def)
  then have b: "\<not> (\<exists>p d q. ''http://librarything.com'' @ ''/work/'' = p @ ''/work/'' @ d # q \<and> is_digit d)"
    using extract_work_id_None_iff[of "''http://librarything.com'' @ ''/work/''"] by blast
  have c: "extract_work_id ''https://www.librarything.com/user/someuser'' = None"
    by (simp add: startswith_def is_digit_def)
  note t = extract_work_id_work_level[of "''35356138''" "''/book/302275636''" "''http://librarything.com''"
      "''https://www.librarything.com/user/someuser''"]
  from a b have hyp: "''35356138'' \<noteq> [] \<and> (\<forall>d\<in>set ''35356138''. is_digit d)
   \<and> (''/book/302275636'' = [] \<or> \<not> is_digit (hd ''/book/302275636''))
   \<and> \<not> (\<exists>p d q. ''http://librarything.com'' @ ''/work/'' = p @ ''/work/'' @ d # q \<and> is_digit d)"
    by (intro conjI) (elim conjE, assumption)+
  have d: "extract_work_id (''http://librarything.com'' @ ''/work/'' @ ''35356138'' @ ''/book/302275636'')
       = Some ''35356138''"
    by (rule t[THEN conjunct1, THEN mp, OF hyp])
  have e: "\<not> (\<exists>p d q. ''https://www.librarything.com/user/someuser'' = p @ ''/work/'' @ d # q \<and> is_digit d)"
    by (rule t[THEN conjunct2, THEN conjunct1, THEN iffD1, OF c])
  have a1: "''35356138'' \<noteq> []" by simp
  have a2: "list_all is_digit ''35356138''" by (simp add: is_digit_def)
  have a3: "\<not> is_digit (hd ''/book/302275636'')" by (simp add: is_digit_def)
  from a1 a2 a3 b d e c show ?thesis by (intro conjI)
qed

section \<open>Parsing and normalising one response\<close>

lemma find_el_None_iff: "find_el e t = None \<longleftrightarrow> \<not> (\<exists>c\<in>set (el_children e). el_tag c = t)"
  by (auto simp: find_el_def find_None_iff)

lemma parse_xml_response_error:
  "\<exists>c\<in>set (el_children r). el_tag c = ''error'' \<Longrightarrow> parse_xml_response (Inr r) wid = None"
  using find_el_None_iff[of r "''error''"] by (simp add: parse_xml_response_def)

lemma fetch_work_details_ok:
  assumes "key \<noteq> []" "throttle_request b w = (Inr u, w1)"
    "http_get b w1 (API_BASE_URL @ ''/'')
       [(''method'', ''librarything.ck.getwork''), (''id'', wid), (''apikey'', key)] = (Inr resp, w2)"
  shows "fetch_work_details b (Some key) wid w =
           (if status_code resp \<noteq> 200 then None
            else parse_xml_response (fromstring b (resp_text resp)) wid, w2)"
  using assms by (simp add: fetch_work_details_def)

lemma process_target_not_fetched:
  assumes "target_work_id t = Some wid" "wid \<noteq> []" "fetch_work_details b key wid w = (None, w1)"
  shows "process_target b key t res w = (None, res, w1)"
  using assms by (simp add: process_target_def)

lemma scrape_loop_step:
  assumes "\<not> (test_mode \<and> test_limit \<le> int i)" "process_target b key t res w = (x, res1, w1)"
  shows "scrape_loop b key test_mode test_limit i (t # ts) res w = scrape_loop b key test_mode test_limit (Suc i) ts res1 w1"
  using assms by auto

lemma store_backend_sel [simp]:
  "utcnow (store_backend upstream xml) = st_now"
  "fromstring (store_backend upstream xml) = xml"
  "throttle_request (store_backend upstream xml) = base_throttle_request"
  "http_get (store_backend upstream xml) = (\<lambda>s url params. (upstream url params, s))"
  "product_exists (store_backend upstream xml) = base_product_exists"
  "create_product (store_backend upstream xml) = base_create_product"
  "update_product (store_backend upstream xml) = base_update_product"
  by (simp_all add: store_backend_def)


lemma parse_xml_response_Some:
  assumes "find_el r ''error'' = None" "find_el r ''work'' = Some wk"
    "strip (findtext wk ''title'' []) \<noteq> []"
  shows "\<exists>wd. parse_xml_response (Inr r) wid = Some wd
           \<and> wd_title wd = Val (strip (findtext wk ''title'' []))
           \<and> wd_url wd = Val (''https://www.librarything.com/work/'' @ wid)
           \<and> wd_work_id wd = Val wid"
  using assms by (simp add: parse_xml_response_def Let_def)

lemma parse_xml_response_None:
  assumes "find_el r ''error'' \<noteq> None \<or> find_el r ''work'' = None
           \<or> (\<exists>wk. find_el r ''work'' = Some wk \<and> strip (findtext wk ''title'' []) = [])"
  shows "parse_xml_response (Inr r) wid = None"
  using assms by (auto simp: parse_xml_response_def Let_def split: option.splits)

lemma create_product_dict_required:
  assumes "wd_title wd = Val t" "wd_url wd = Val u" "u \<noteq> []"
  shows "p_name (create_product_dict wd su now) = Some t
       \<and> p_source (create_product_dict wd su now) = ''GOAT''
       \<and> p_url (create_product_dict wd su now) \<noteq> None
       \<and> p_type (create_product_dict wd su now) = ''Book''"
  using assms
  by (simp add: create_product_dict_def Let_def dict_get_default_def dict_get_def py_or_def truthy_def
        split: option.splits)

text \<open>
  C4 (as amended). Let the payload be well-formed with root \<open>r\<close>. If \<open>r\<close> has no direct
  \<^verbatim>\<open>error\<close> child, its first direct \<^verbatim>\<open>work\<close> child is \<open>wk\<close>, and the text of the first
  \<^verbatim>\<open>title\<close> child of \<open>wk\<close> is not blank, then \<^verbatim>\<open>_parse_xml_response\<close> returns work data and
  \<^verbatim>\<open>_create_product_dict\<close> turns it into a record whose name is the stripped title, whose
  source is \<^verbatim>\<open>GOAT\<close>, whose type is \<^verbatim>\<open>Book\<close> and whose url is not \<^verbatim>\<open>None\<close>. If \<open>r\<close> has a direct
  \<^verbatim>\<open>error\<close> child, or no direct \<^verbatim>\<open>work\<close> child, or the title of the first \<^verbatim>\<open>work\<close> child is
  missing or blank, the result is \<^verbatim>\<open>None\<close>, as it is for a payload that is not well-formed.
  When the parser returns \<^verbatim>\<open>None\<close> for the response to a target, the loop body ends for that
  target with the counters unchanged and the state left by the HTTP request: no record is
  built and the row store is not called.
\<close>

theorem parse_then_create_required_fields:
  "(find_el r ''error'' = None \<and> find_el r ''work'' = Some wk
      \<and> strip (findtext wk ''title'' []) \<noteq> []
    \<longrightarrow> (\<exists>wd. parse_xml_response (Inr r) wid = Some wd
           \<and> p_name (create_product_dict wd su now) = Some (strip (findtext wk ''title'' []))
           \<and> p_source (create_product_dict wd su now) = ''GOAT''
           \<and> p_url (create_product_dict wd su now) \<noteq> None
           \<and> p_type (create_product_dict wd su now) = ''Book''))
   \<and> (find_el r ''error'' \<noteq> None \<or> find_el r ''work'' = None
        \<or> (\<exists>wk. find_el r ''work'' = Some wk \<and> strip (findtext wk ''title'' []) = [])
       \<longrightarrow> parse_xml_response (Inr r) wid = None)
   \<and> parse_xml_response (Inl e) wid = None
   \<and> (key \<noteq> [] \<and> throttle_request b w = (Inr u, w1)
        \<and> http_get b w1 (API_BASE_URL @ ''/'')
             [(''method'', ''librarything.ck.getwork''), (''id'', wid), (''apikey'', key)] = (Inr resp, w2)
        \<and> parse_xml_response (fromstring b (resp_text resp)) wid = None
        \<and> target_work_id t = Some wid \<and> wid \<noteq> []
       \<longrightarrow> process_target b (Some key) t results w = (None, results, w2))"
proof (intro conjI impI)
  assume h: "find_el r ''error'' = None \<and> find_el r ''work'' = Some wk
      \<and> strip (findtext wk ''title'' []) \<noteq> []"
  then obtain wd where wd: "parse_xml_response (Inr r) wid = Some wd"
      "wd_title wd = Val (strip (findtext wk ''title'' []))"
      "wd_url wd = Val (''https://www.librarything.com/work/'' @ wid)"
    using parse_xml_response_Some[of r wk wid] by blast
  have "''https://www.librarything.com/work/'' @ wid \<noteq> []" by simp
  from create_product_dict_required[OF wd(2,3) this, of su now] wd(1)
  show "\<exists>wd. parse_xml_response (Inr r) wid = Some wd
           \<and> p_name (create_product_dict wd su now) = Some (strip (findtext wk ''title'' []))
           \<and> p_source (create_product_dict wd su now) = ''GOAT''
           \<and> p_url (create_product_dict wd su now) \<noteq> None
           \<and> p_type (create_product_dict wd su now) = ''Book''" by blast
next
  assume "find_el r ''error'' \<noteq> None \<or> find_el r ''work'' = None
        \<or> (\<exists>wk. find_el r ''work'' = Some wk \<and> strip (findtext wk ''title'' []) = [])"
  then show "parse_xml_response (Inr r) wid = None" by (rule parse_xml_response_None)
next
  show "parse_xml_response (Inl e) wid = None" by (simp add: parse_xml_response_def)
next
  assume h: "key \<noteq> [] \<and> throttle_request b w = (Inr u, w1)
        \<and> http_get b w1 (API_BASE_URL @ ''/'')
             [(''method'', ''librarything.ck.getwork''), (''id'', wid), (''apikey'', key)] = (Inr resp, w2)
        \<and> parse_xml_response (fromstring b (resp_text resp)) wid = None
        \<and> target_work_id t = Some wid \<and> wid \<noteq> []"
  then have "fetch_work_details b (Some key) wid w =
           (if status_code resp \<noteq> 200 then None
            else parse_xml_response (fromstring b (resp_text resp)) wid, w2)"
    using fetch_work_details_ok[of key b w u w1 wid resp w2] by blast
  with h have "fetch_work_details b (Some key) wid w = (None, w2)" by simp
  with h show "process_target b (Some key) t results w = (None, results, w2)"
    using process_target_not_fetched[of t wid b "Some key" w w2 results] by blast
qed

lemma strip_garden: "strip ''The Curious Garden'' = ''The Curious Garden''"
  by (simp add: strip_def is_space_def)

text \<open>
  The claim as first stated fails: a well-formed payload with a \<^verbatim>\<open>work\<close> element and a
  non-empty title, which also carries an \<^verbatim>\<open>error\<close> element, is parsed to \<^verbatim>\<open>None\<close>.
\<close>

theorem parse_xml_response_counterexample:
  "find_el error_and_work_doc ''work''
     = Some (Element ''work'' None [Element ''title'' (Some ''The Curious Garden'') []])
   \<and> findtext (Element ''work'' None [Element ''title'' (Some ''The Curious Garden'') []]) ''title'' []
     = ''The Curious Garden''
   \<and> parse_xml_response (Inr error_and_work_doc) ''35356138'' = None"
  by (simp add: error_and_work_doc_def find_el_def findtext_def parse_xml_response_def)

theorem parse_then_create_required_fields_witness:
  "find_el garden_doc ''error'' = None
   \<and> (\<exists>wd. parse_xml_response (Inr garden_doc) ''35356138'' = Some wd
         \<and> p_name (create_product_dict wd None example_clock) = Some ''The Curious Garden''
         \<and> p_url (create_product_dict wd None example_clock) \<noteq> None)
   \<and> find_el error_doc ''error'' \<noteq> None
   \<and> parse_xml_response (Inr error_doc) ''1'' = None
   \<and> process_target (store_backend example_upstream example_xml) (Some ''k'') ''1'' initial_results
        empty_store = (None, initial_results, empty_store)"
proof -
  let ?wk = "Element ''work'' None
        [Element ''id'' (Some ''35356138'') [],
         Element ''title'' (Some ''The Curious Garden'') [],
         Element ''author'' None [Element ''name'' (Some ''Peter Brown'') []]]"
  let ?b = "store_backend example_upstream example_xml"
  let ?resp = "\<lparr>status_code = 200, resp_text = error_xml\<rparr>"
  have a: "find_el garden_doc ''error'' = None" by (simp add: garden_doc_def find_el_def)
  have b: "find_el garden_doc ''work'' = Some ?wk" by (simp add: garden_doc_def find_el_def)
  have c: "findtext ?wk ''title'' [] = ''The Curious Garden''" by (simp add: findtext_def find_el_def)
  have d: "strip (findtext ?wk ''title'' []) \<noteq> []" by (simp add: c strip_garden)
  have e: "find_el error_doc ''error'' \<noteq> None" by (simp add: error_doc_def find_el_def)
  note t1 = parse_then_create_required_fields[of garden_doc ?wk "''35356138''" None example_clock]
  note t2 = parse_then_create_required_fields[of error_doc error_doc "''1''" None example_clock
      "ParseError []" "''k''" ?b empty_store "()" empty_store ?resp empty_store "''1''" initial_results]
  from a b d have hyp1: "find_el garden_doc ''error'' = None \<and> find_el garden_doc ''work'' = Some ?wk
      \<and> strip (findtext ?wk ''title'' []) \<noteq> []"
    by (intro conjI)
  note r1 = t1[THEN conjunct1, THEN mp, OF hyp1]
  from r1 obtain wd where wd: "parse_xml_response (Inr garden_doc) ''35356138'' = Some wd"
      "p_name (create_product_dict wd None example_clock) = Some (strip (findtext ?wk ''title'' []))"
      "p_url (create_product_dict wd None example_clock) \<noteq> None"
    by (elim exE conjE)
  from wd(2) have "p_name (create_product_dict wd None example_clock) = Some ''The Curious Garden''"
    unfolding c strip_garden .
  with wd(1,3)
  have f: "\<exists>wd. parse_xml_response (Inr garden_doc) ''35356138'' = Some wd
         \<and> p_name (create_product_dict wd None example_clock) = Some ''The Curious Garden''
         \<and> p_url (create_product_dict wd None example_clock) \<noteq> None"
    by (intro exI[of _ wd] conjI)
  have g: "parse_xml_response (Inr error_doc) ''1'' = None"
    by (rule t2[THEN conjunct2, THEN conjunct1, THEN mp, OF disjI1[OF e]])
  have fs: "fromstring ?b (resp_text ?resp) = Inr error_doc"
    by (simp add: example_xml_def garden_xml_def error_xml_def)
  have hyp: "''k'' \<noteq> [] \<and> throttle_request ?b empty_store = (Inr (), empty_store)
        \<and> http_get ?b empty_store (API_BASE_URL @ ''/'')
             [(''method'', ''librarything.ck.getwork''), (''id'', ''1''), (''apikey'', ''k'')] = (Inr ?resp, empty_store)
        \<and> parse_xml_response (fromstring ?b (resp_text ?resp)) ''1'' = None
        \<and> target_work_id ''1'' = Some ''1'' \<and> ''1'' \<noteq> []"
    unfolding fs g
    by (simp add: base_throttle_request_def example_upstream_def target_work_id_def startswith_def
          strip_def is_space_def)
  have h: "process_target ?b (Some ''k'') ''1'' initial_results empty_store
             = (None, initial_results, empty_store)"
    by (rule t2[THEN conjunct2, THEN conjunct2, THEN conjunct2, THEN mp, OF hyp])
  from a f e g h show ?thesis by (intro conjI)
qed

section \<open>Upstream error responses\<close>

text \<open>
  C9. If the root of a response has a direct \<^verbatim>\<open>error\<close> child, \<^verbatim>\<open>_parse_xml_response\<close> returns
  \<^verbatim>\<open>None\<close>. Consequently, when the request for a work is answered by such a response
  (whatever its status code), \<^verbatim>\<open>_fetch_work_details\<close> returns \<^verbatim>\<open>None\<close>, and the bulk loop
  goes on to the next target with \<^verbatim>\<open>products_found\<close>, \<^verbatim>\<open>products_added\<close> and
  \<^verbatim>\<open>products_updated\<close> as they were.
\<close>

theorem error_response_skipped:
  "((\<exists>c\<in>set (el_children r). el_tag c = ''error'') \<longrightarrow> parse_xml_response (Inr r) wid = None)
   \<and> (key \<noteq> [] \<and> throttle_request b w = (Inr u, w1)
        \<and> http_get b w1 (API_BASE_URL @ ''/'')
             [(''method'', ''librarything.ck.getwork''), (''id'', wid), (''apikey'', key)] = (Inr resp, w2)
        \<and> fromstring b (resp_text resp) = Inr r
        \<and> (\<exists>c\<in>set (el_children r). el_tag c = ''error'')
       \<longrightarrow> fetch_work_details b (Some key) wid w = (None, w2)
           \<and> (target_work_id t = Some wid \<and> wid \<noteq> [] \<and> \<not> (test_mode \<and> test_limit \<le> int i)
                \<longrightarrow> process_target b (Some key) t results w = (None, results, w2)
                    \<and> scrape_loop b (Some key) test_mode test_limit i (t # ts) results w
                        = scrape_loop b (Some key) test_mode test_limit (Suc i) ts results w2))"
proof (intro conjI impI)
  assume "\<exists>c\<in>set (el_children r). el_tag c = ''error''"
  then show "parse_xml_response (Inr r) wid = None" by (rule parse_xml_response_error)
next
  assume h: "key \<noteq> [] \<and> throttle_request b w = (Inr u, w1)
        \<and> http_get b w1 (API_BASE_URL @ ''/'')
             [(''method'', ''librarything.ck.getwork''), (''id'', wid), (''apikey'', key)] = (Inr resp, w2)
        \<and> fromstring b (resp_text resp) = Inr r
        \<and> (\<exists>c\<in>set (el_children r). el_tag c = ''error'')"
  then have p: "parse_xml_response (fromstring b (resp_text resp)) wid = None"
    using parse_xml_response_error[of r wid] by simp
  from h have "fetch_work_details b (Some key) wid w =
           (if status_code resp \<noteq> 200 then None
            else parse_xml_response (fromstring b (resp_text resp)) wid, w2)"
    using fetch_work_details_ok[of key b w u w1 wid resp w2] by blast
  with p show f: "fetch_work_details b (Some key) wid w = (None, w2)" by simp
  assume g: "target_work_id t = Some wid \<and> wid \<noteq> [] \<and> \<not> (test_mode \<and> test_limit \<le> int i)"
  with f show pt: "process_target b (Some key) t results w = (None, results, w2)"
    using process_target_not_fetched[of t wid b "Some key" w w2 results] by blast
  from g pt show "scrape_loop b (Some key) test_mode test_limit i (t # ts) results w
                        = scrape_loop b (Some key) test_mode test_limit (Suc i) ts results w2"
    using scrape_loop_step[of test_mode test_limit i b "Some key" t results w None results w2 ts] by blast
qed

theorem error_response_skipped_witness:
  "(\<exists>c\<in>set (el_children error_doc). el_tag c = ''error'')
   \<and> parse_xml_response (Inr error_doc) ''1'' = None
   \<and> ''k'' \<noteq> []
   \<and> throttle_request (store_backend example_upstream example_xml) empty_store = (Inr (), empty_store)
   \<and> http_get (store_backend example_upstream example_xml) empty_store (API_BASE_URL @ ''/'')
        [(''method'', ''librarything.ck.getwork''), (''id'', ''1''), (''apikey'', ''k'')]
       = (Inr \<lparr>status_code = 200, resp_text = error_xml\<rparr>, empty_store)
   \<and> fromstring (store_backend example_upstream example_xml)
        (resp_text \<lparr>status_code = 200, resp_text = error_xml\<rparr>) = Inr error_doc
   \<and> target_work_id ''1'' = Some ''1'' \<and> ''1'' \<noteq> [] \<and> \<not> (True \<and> 5 \<le> int 0)
   \<and> fetch_work_details (store_backend example_upstream example_xml) (Some ''k'') ''1'' empty_store
       = (None, empty_store)
   \<and> process_target (store_backend example_upstream example_xml) (Some ''k'') ''1'' initial_results
        empty_store = (None, initial_results, empty_store)
   \<and> scrape_loop (store_backend example_upstream example_xml) (Some ''k'') True 5 0 [''1'']
        initial_results empty_store = (initial_results, empty_store)"
proof -
  let ?b = "store_backend example_upstream example_xml"
  let ?resp = "\<lparr>status_code = 200, resp_text = error_xml\<rparr>"
  have e: "\<exists>c\<in>set (el_children error_doc). el_tag c = ''error''"
    by (simp add: error_doc_def)
  have k: "''k'' \<noteq> []" by simp
  have th: "throttle_request ?b empty_store = (Inr (), empty_store)"
    by (simp add: base_throttle_request_def)
  have ht: "http_get ?b empty_store (API_BASE_URL @ ''/'')
        [(''method'', ''librarything.ck.getwork''), (''id'', ''1''), (''apikey'', ''k'')]
       = (Inr ?resp, empty_store)"
    by (simp add: example_upstream_def)
  have fs: "fromstring ?b (resp_text ?resp) = Inr error_doc"
    by (simp add: example_xml_def garden_xml_def error_xml_def)
  have tw: "target_work_id ''1'' = Some ''1'' \<and> ''1'' \<noteq> [] \<and> \<not> (True \<and> 5 \<le> int 0)"
    by (simp add: target_work_id_def startswith_def strip_def is_space_def)
  note t = error_response_skipped[of error_doc "''1''" "''k''" ?b empty_store "()" empty_store ?resp
      empty_store "''1''" True 5 0 initial_results "[]"]
  from t e have p: "parse_xml_response (Inr error_doc) ''1'' = None" by blast
  from k th ht fs e have hyp: "''k'' \<noteq> [] \<and> throttle_request ?b empty_store = (Inr (), empty_store)
        \<and> http_get ?b empty_store (API_BASE_URL @ ''/'')
             [(''method'', ''librarything.ck.getwork''), (''id'', ''1''), (''apikey'', ''k'')] = (Inr ?resp, empty_store)
        \<and> fromstring ?b (resp_text ?resp) = Inr error_doc
        \<and> (\<exists>c\<in>set (el_children error_doc). el_tag c = ''error'')"
    by (intro conjI)
  from t[THEN conjunct2, THEN mp, OF hyp]
  have f: "fetch_work_details ?b (Some ''k'') ''1'' empty_store = (None, empty_store)"
    and g: "target_work_id ''1'' = Some ''1'' \<and> ''1'' \<noteq> [] \<and> \<not> (True \<and> 5 \<le> int 0)
                \<longrightarrow> process_target ?b (Some ''k'') ''1'' initial_results empty_store = (None, initial_results, empty_store)
                    \<and> scrape_loop ?b (Some ''k'') True 5 0 [''1''] initial_results empty_store
                        = scrape_loop ?b (Some ''k'') True 5 (Suc 0) [] initial_results empty_store"
    by blast+
  from g[THEN mp, OF tw]
  have pt: "process_target ?b (Some ''k'') ''1'' initial_results empty_store = (None, initial_results, empty_store)"
    and sl: "scrape_loop ?b (Some ''k'') True 5 0 [''1''] initial_results empty_store
                        = scrape_loop ?b (Some ''k'') True 5 (Suc 0) [] initial_results empty_store"
    by blast+
  from sl have sl': "scrape_loop ?b (Some ''k'') True 5 0 [''1''] initial_results empty_store
       = (initial_results, empty_store)" by simp
  from e p k th ht fs tw f pt sl' show ?thesis by (intro conjI) (elim conjE, assumption)+
qed

section \<open>What the loop changes in the report\<close>

lemma store_product_frame:
  assumes "store_product b wid p res w = (x, res1, w1)"
  shows "status res1 = status res \<and> message res1 = message res
       \<and> error_message res1 = error_message res \<and> r_source res1 = r_source res
       \<and> products_found res \<le> products_found res1
       \<and> products_added res \<le> products_added res1
       \<and> products_updated res \<le> products_updated res1
       \<and> (x \<noteq> None \<longrightarrow> res1 = res)"
  using assms
  by (auto simp: store_product_def Let_def split: prod.splits sum.splits option.splits if_splits)

lemma process_target_frame:
  assumes "process_target b key t res w = (x, res1, w1)"
  shows "status res1 = status res \<and> message res1 = message res
       \<and> error_message res1 = error_message res \<and> r_source res1 = r_source res
       \<and> products_found res \<le> products_found res1
       \<and> products_added res \<le> products_added res1
       \<and> products_updated res \<le> products_updated res1
       \<and> (x \<noteq> None \<longrightarrow> res1 = res)"
proof (cases "\<exists>wid wd w0. target_work_id t = Some wid \<and> wid \<noteq> []
                \<and> fetch_work_details b key wid w = (Some wd, w0)")
  case True
  then obtain wid wd w0 where h: "target_work_id t = Some wid" "wid \<noteq> []"
      "fetch_work_details b key wid w = (Some wd, w0)" by blast
  then have "process_target b key t res w
      = store_product b wid (create_product_dict wd (target_source_url t) (utcnow b w0)) res w0"
    by (simp add: process_target_def)
  with assms show ?thesis using store_product_frame by metis
next
  case False
  then have "\<exists>w0. process_target b key t res w = (None, res, w0)"
    by (auto simp: process_target_def Let_def split: option.splits prod.splits)
  with assms show ?thesis by auto
qed

lemma scrape_loop_frame:
  assumes "scrape_loop b key test_mode test_limit i ts res w = (res1, w1)"
  shows "status res1 = status res \<and> message res1 = message res
       \<and> error_message res1 = error_message res \<and> r_source res1 = r_source res
       \<and> products_found res \<le> products_found res1
       \<and> products_added res \<le> products_added res1
       \<and> products_updated res \<le> products_updated res1"
  using assms
proof (induction ts arbitrary: i res w)
  case Nil
  then show ?case by simp
next
  case (Cons t ts)
  show ?case
  proof (cases "test_mode \<and> test_limit \<le> int i")
    case True
    with Cons.prems show ?thesis by auto
  next
    case False
    obtain x res2 w2 where p: "process_target b key t res w = (x, res2, w2)"
      by (metis prod_cases3)
    with False Cons.prems have "scrape_loop b key test_mode test_limit (Suc i) ts res2 w2 = (res1, w1)"
      by auto
    from Cons.IH[OF this] process_target_frame[OF p] show ?thesis by auto
  qed
qed

lemma scrape_loop_take:
  "scrape_loop b key True test_limit i ts res w
     = scrape_loop b key False other_limit i (take (nat (test_limit - int i)) ts) res w"
proof (induction ts arbitrary: i res w)
  case Nil
  then show ?case by simp
next
  case (Cons t ts)
  show ?case
  proof (cases "test_limit \<le> int i")
    case True
    then show ?thesis by simp
  next
    case False
    then have n: "nat (test_limit - int i) = Suc (nat (test_limit - int (Suc i)))" by simp
    obtain x res2 w2 where p: "process_target b key t res w = (x, res2, w2)"
      by (metis prod_cases3)
    show ?thesis using False p Cons.IH[of "Suc i" res2 w2] unfolding n by simp
  qed
qed

lemma scrape_Inr: "\<exists>r w1. scrape b key test_mode test_limit urls w = (Inr r, w1)"
  by (auto simp: scrape_def scrape_except_def split: prod.splits sum.splits)


section \<open>Early termination on missing configuration\<close>

lemma scrape_try_missing_key:
  assumes "\<not> truthy api_key"
  shows "\<exists>r. scrape_try b api_key test_mode test_limit urls st w = (Inr r, w)
           \<and> status r = ''warning'' \<and> message r \<noteq> None \<and> products_found r = 0
           \<and> products_added r = 0 \<and> products_updated r = 0"
  using assms by (simp add: scrape_try_def initial_results_def)

lemma scrape_try_no_targets:
  assumes "truthy api_key" "load_targets b urls w = ([], w1)"
  shows "\<exists>r. scrape_try b api_key test_mode test_limit urls st w = (Inr r, w1)
           \<and> status r = ''warning'' \<and> message r \<noteq> None \<and> products_found r = 0
           \<and> products_added r = 0 \<and> products_updated r = 0"
  using assms by (simp add: scrape_try_def initial_results_def)

lemma scrape_of_try:
  assumes "scrape_try b api_key test_mode test_limit urls (utcnow b w) w = (Inr r, w1)"
  shows "scrape b api_key test_mode test_limit urls w = (Inr r, w1)"
  using assms by (simp add: scrape_def scrape_except_def)

lemma load_targets_no_rows:
  assumes "urls = None \<or> urls = Some []" "select_search_terms b w ''goat'' = (Inr [], w1)"
  shows "load_targets b urls w = ([], w1)"
  using assms by (auto simp: load_targets_def truthy_def)

lemma scrape_missing_key:
  assumes "\<not> truthy api_key"
  shows "\<exists>r. scrape b api_key test_mode test_limit urls w = (Inr r, w)
           \<and> status r = ''warning''
           \<and> message r = Some ''LibraryThing API key not configured. Cannot scrape without API key. Configure in oauth_configs table with platform=goat''
           \<and> products_found r = 0 \<and> products_added r = 0 \<and> products_updated r = 0
           \<and> duration_seconds r = 0"
  using assms by (simp add: scrape_def scrape_except_def scrape_try_def initial_results_def)

lemma scrape_no_targets:
  assumes "truthy api_key" "load_targets b urls w = ([], w1)"
  shows "\<exists>r. scrape b api_key test_mode test_limit urls w = (Inr r, w1)
           \<and> status r = ''warning''
           \<and> message r = Some ''No GOAT targets configured. Provide LibraryThing URLs or work IDs via urls argument or scraper_search_terms (platform=goat).''
           \<and> products_found r = 0 \<and> products_added r = 0 \<and> products_updated r = 0
           \<and> duration_seconds r = total_seconds (utcnow b w1) (utcnow b w)"
  using assms by (simp add: scrape_def scrape_except_def scrape_try_def initial_results_def)

text \<open>
  C3. If the API key is missing (\<^verbatim>\<open>None\<close> or empty), \<^verbatim>\<open>scrape\<close> returns at once: the state
  of the outside world is the one it started in (no collaborator is called) and the report
  has status \<^verbatim>\<open>warning\<close>, the message about the missing key, the three counters 0 and the
  initial duration 0. If the key is present and no targets resolve (the \<^verbatim>\<open>urls\<close> argument is
  \<^verbatim>\<open>None\<close> or empty and the query on \<^verbatim>\<open>scraper_search_terms\<close> for platform \<^verbatim>\<open>goat\<close> returns no
  rows; more generally, whenever the resolved target list is empty), \<^verbatim>\<open>scrape\<close> returns
  in the state left by resolving the targets (the loop is not entered) with status
  \<^verbatim>\<open>warning\<close>, the message about missing targets and the three counters 0. In both cases
  a report is returned, not an exception.
\<close>

theorem scrape_configuration_warning:
  "(\<not> truthy api_key
    \<longrightarrow> (\<exists>r. scrape b api_key test_mode test_limit urls w = (Inr r, w)
           \<and> status r = ''warning''
           \<and> message r = Some ''LibraryThing API key not configured. Cannot scrape without API key. Configure in oauth_configs table with platform=goat''
           \<and> products_found r = 0 \<and> products_added r = 0 \<and> products_updated r = 0
           \<and> duration_seconds r = 0))
   \<and> (truthy api_key \<and> (urls = None \<or> urls = Some [])
        \<and> select_search_terms b w ''goat'' = (Inr [], w1)
       \<longrightarrow> load_targets b urls w = ([], w1)
           \<and> (\<exists>r. scrape b api_key test_mode test_limit urls w = (Inr r, w1)
                 \<and> status r = ''warning''
                 \<and> message r = Some ''No GOAT targets configured. Provide LibraryThing URLs or work IDs via urls argument or scraper_search_terms (platform=goat).''
                 \<and> products_found r = 0 \<and> products_added r = 0 \<and> products_updated r = 0
                 \<and> duration_seconds r = total_seconds (utcnow b w1) (utcnow b w)))
   \<and> (truthy api_key \<and> load_targets b urls w = ([], w2)
       \<longrightarrow> (\<exists>r. scrape b api_key test_mode test_limit urls w = (Inr r, w2)
              \<and> status r = ''warning''
              \<and> message r = Some ''No GOAT targets configured. Provide LibraryThing URLs or work IDs via urls argument or scraper_search_terms (platform=goat).''
              \<and> products_found r = 0 \<and> products_added r = 0 \<and> products_updated r = 0
              \<and> duration_seconds r = total_seconds (utcnow b w2) (utcnow b w)))"
proof (intro conjI impI)
  assume "\<not> truthy api_key"
  then show "\<exists>r. scrape b api_key test_mode test_limit urls w = (Inr r, w)
           \<and> status r = ''warning''
           \<and> message r = Some ''LibraryThing API key not configured. Cannot scrape without API key. Configure in oauth_configs table with platform=goat''
           \<and> products_found r = 0 \<and> products_added r = 0 \<and> products_updated r = 0
           \<and> duration_seconds r = 0"
    by (rule scrape_missing_key)
next
  assume h: "truthy api_key \<and> (urls = None \<or> urls = Some [])
        \<and> select_search_terms b w ''goat'' = (Inr [], w1)"
  show l: "load_targets b urls w = ([], w1)"
    by (rule load_targets_no_rows[OF h[THEN conjunct2, THEN conjunct1] h[THEN conjunct2, THEN conjunct2]])
  show "\<exists>r. scrape b api_key test_mode test_limit urls w = (Inr r, w1)
                 \<and> status r = ''warning''
                 \<and> message r = Some ''No GOAT targets configured. Provide LibraryThing URLs or work IDs via urls argument or scraper_search_terms (platform=goat).''
                 \<and> products_found r = 0 \<and> products_added r = 0 \<and> products_updated r = 0
                 \<and> duration_seconds r = total_seconds (utcnow b w1) (utcnow b w)"
    by (rule scrape_no_targets[OF h[THEN conjunct1] l])
next
  assume h: "truthy api_key \<and> load_targets b urls w = ([], w2)"
  show "\<exists>r. scrape b api_key test_mode test_limit urls w = (Inr r, w2)
              \<and> status r = ''warning''
              \<and> message r = Some ''No GOAT targets configured. Provide LibraryThing URLs or work IDs via urls argument or scraper_search_terms (platform=goat).''
              \<and> products_found r = 0 \<and> products_added r = 0 \<and> products_updated r = 0
              \<and> duration_seconds r = total_seconds (utcnow b w2) (utcnow b w)"
    by (rule scrape_no_targets[OF h[THEN conjunct1] h[THEN conjunct2]])
qed

theorem scrape_configuration_warning_witness:
  "\<not> truthy (None :: string option)
   \<and> (\<exists>r. scrape (store_backend example_upstream example_xml) None False 5
             (Some [''35356138'']) empty_store = (Inr r, empty_store)
         \<and> status r = ''warning''
         \<and> message r = Some ''LibraryThing API key not configured. Cannot scrape without API key. Configure in oauth_configs table with platform=goat''
         \<and> products_found r = 0 \<and> products_added r = 0 \<and> products_updated r = 0
         \<and> duration_seconds r = 0)
   \<and> truthy (Some ''k'')
   \<and> select_search_terms (store_backend example_upstream example_xml) empty_store ''goat''
       = (Inr [], empty_store)
   \<and> load_targets (store_backend example_upstream example_xml) None empty_store = ([], empty_store)
   \<and> (\<exists>r. scrape (store_backend example_upstream example_xml) (Some ''k'') False 5 None empty_store
             = (Inr r, empty_store)
         \<and> status r = ''warning''
         \<and> message r = Some ''No GOAT targets configured. Provide LibraryThing URLs or work IDs via urls argument or scraper_search_terms (platform=goat).''
         \<and> products_found r = 0 \<and> products_added r = 0 \<and> products_updated r = 0
         \<and> duration_seconds r = total_seconds (utcnow (store_backend example_upstream example_xml) empty_store)
                                  (utcnow (store_backend example_upstream example_xml) empty_store))
   \<and> load_targets raising_backend None () = ([], ())
   \<and> (\<exists>r. scrape raising_backend (Some ''k'') False 5 None () = (Inr r, ())
         \<and> status r = ''warning''
         \<and> message r = Some ''No GOAT targets configured. Provide LibraryThing URLs or work IDs via urls argument or scraper_search_terms (platform=goat).''
         \<and> products_found r = 0 \<and> products_added r = 0 \<and> products_updated r = 0
         \<and> duration_seconds r = total_seconds (utcnow raising_backend ()) (utcnow raising_backend ()))"
proof -
  let ?b = "store_backend example_upstream example_xml"
  have a: "\<not> truthy (None :: string option)" by (simp add: truthy_def)
  have k: "truthy (Some ''k'')" by (simp add: truthy_def)
  have c: "select_search_terms ?b empty_store ''goat'' = (Inr [], empty_store)"
    by (simp add: store_backend_def empty_store_def)
  have u: "(None :: string list option) = None \<or> (None :: string list option) = Some []" by simp
  note t1 = scrape_configuration_warning[where api_key=None and b="?b" and test_mode=False
      and test_limit=5 and urls="Some [''35356138'']" and w=empty_store, THEN conjunct1, THEN mp, OF a]
  note t2 = scrape_configuration_warning[where api_key="Some ''k''" and b="?b" and test_mode=False
      and test_limit=5 and urls=None and w=empty_store and ?w1.0=empty_store,
      THEN conjunct2, THEN conjunct1, THEN mp, OF conjI[OF k conjI[OF u c]]]
  have l: "load_targets raising_backend None () = ([], ())" by code_simp
  note t3 = scrape_configuration_warning[where api_key="Some ''k''" and b=raising_backend
      and test_mode=False and test_limit=5 and urls=None and w="()" and ?w2.0="()",
      THEN conjunct2, THEN conjunct2, THEN mp, OF conjI[OF k l]]
  from a t1 k c t2[THEN conjunct1] t2[THEN conjunct2] l t3 show ?thesis by (intro conjI)
qed

section \<open>The status of the report\<close>

lemma scrape_try_finished:
  assumes "truthy api_key" "load_targets b urls w = (ts, w1)" "ts \<noteq> []"
    "scrape_loop b api_key test_mode test_limit 0 ts initial_results w1 = (res, w2)"
  shows "\<exists>r. scrape_try b api_key test_mode test_limit urls st w = (Inr r, w2)
           \<and> products_found r = products_found res
           \<and> products_added r = products_added res
           \<and> products_updated r = products_updated res
           \<and> status r = (if products_found res = 0 then ''warning'' else ''success'')
           \<and> message r \<noteq> None \<and> error_message r = None"
proof -
  from scrape_loop_frame[OF assms(4)] have "status res = ''success''" "error_message res = None"
    by (simp_all add: initial_results_def)
  with assms show ?thesis by (simp add: scrape_try_def Let_def)
qed

lemma scrape_try_status: 
  assumes "scrape_try b api_key test_mode test_limit urls st w = (Inr r, w2)"
  shows "status r = ''success'' \<or> status r = ''warning''"
proof (cases "truthy api_key")
  case False
  from scrape_try_missing_key[OF False, of b test_mode test_limit urls st w] assms
  show ?thesis by auto
next
  case True
  obtain ts w1 where l: "load_targets b urls w = (ts, w1)" by (cases "load_targets b urls w")
  show ?thesis
  proof (cases "ts = []")
    case True
    with l scrape_try_no_targets[OF \<open>truthy api_key\<close>, of b urls w w1 test_mode test_limit st] assms
    show ?thesis by auto
  next
    case False
    obtain res w3 where s: "scrape_loop b api_key test_mode test_limit 0 ts initial_results w1 = (res, w3)"
      by (cases "scrape_loop b api_key test_mode test_limit 0 ts initial_results w1")
    from scrape_try_finished[OF True l False s, where st=st] assms show ?thesis by auto
  qed
qed

lemma scrape_except_Inl:
  "\<exists>r1. scrape_except b st (Inl e, w2) = (Inr r1, w2) \<and> status r1 = ''error''
         \<and> error_message r1 \<noteq> None \<and> products_found r1 = 0 \<and> products_added r1 = 0
         \<and> products_updated r1 = 0"
  by (simp add: scrape_except_def scrape_error_report_def)

text \<open>
  C2. When the API key is present and at least one target resolves, \<^verbatim>\<open>scrape\<close> runs its
  target loop and returns a report with status \<^verbatim>\<open>success\<close> if \<^verbatim>\<open>products_found\<close> is at least 1
  and \<^verbatim>\<open>warning\<close> if it is 0 (it is never negative). A report returned by the body of the
  outer \<^verbatim>\<open>try\<close> never has status \<^verbatim>\<open>error\<close> and passes the handler unchanged; the report that
  the handler builds for an exception that reaches it has status \<^verbatim>\<open>error\<close>, an
  \<^verbatim>\<open>error_message\<close>, and all three counters 0.
\<close>

theorem scrape_final_status:
  "(truthy api_key \<and> fst (load_targets b urls w) \<noteq> []
    \<longrightarrow> (\<exists>r w2. scrape b api_key test_mode test_limit urls w = (Inr r, w2)
           \<and> 0 \<le> products_found r
           \<and> (1 \<le> products_found r \<longrightarrow> status r = ''success'')
           \<and> (products_found r = 0 \<longrightarrow> status r = ''warning'')))
   \<and> (scrape_try b api_key test_mode test_limit urls st w = (Inr r, w2)
       \<longrightarrow> status r \<noteq> ''error'' \<and> scrape_except b st (Inr r, w2) = (Inr r, w2))
   \<and> (\<exists>r1. scrape_except b st (Inl e, w2) = (Inr r1, w2) \<and> status r1 = ''error''
         \<and> error_message r1 \<noteq> None \<and> products_found r1 = 0 \<and> products_added r1 = 0
         \<and> products_updated r1 = 0)"
proof (intro conjI impI)
  assume h: "truthy api_key \<and> fst (load_targets b urls w) \<noteq> []"
  obtain ts w1 where l: "load_targets b urls w = (ts, w1)" by (cases "load_targets b urls w")
  with h have ne: "ts \<noteq> []" by simp
  obtain res w3 where s: "scrape_loop b api_key test_mode test_limit 0 ts initial_results w1 = (res, w3)"
    by (cases "scrape_loop b api_key test_mode test_limit 0 ts initial_results w1")
  from scrape_loop_frame[OF s] have nn: "0 \<le> products_found res" by (simp add: initial_results_def)
  from h have k: "truthy api_key" by simp
  from scrape_try_finished[OF k l ne s, where st="utcnow b w"]
  obtain r where r: "scrape_try b api_key test_mode test_limit urls (utcnow b w) w = (Inr r, w3)"
    "products_found r = products_found res"
    "status r = (if products_found res = 0 then ''warning'' else ''success'')"
    by (elim exE conjE)
  from r(2,3) nn have "0 \<le> products_found r" "1 \<le> products_found r \<longrightarrow> status r = ''success''"
    "products_found r = 0 \<longrightarrow> status r = ''warning''" by auto
  with scrape_of_try[OF r(1)]
  show "\<exists>r w2. scrape b api_key test_mode test_limit urls w = (Inr r, w2)
           \<and> 0 \<le> products_found r
           \<and> (1 \<le> products_found r \<longrightarrow> status r = ''success'')
           \<and> (products_found r = 0 \<longrightarrow> status r = ''warning'')"
    by (intro exI[of _ r] exI[of _ w3] conjI)
next
  assume a: "scrape_try b api_key test_mode test_limit urls st w = (Inr r, w2)"
  from scrape_try_status[OF a] show "status r \<noteq> ''error''" by auto
  show "scrape_except b st (Inr r, w2) = (Inr r, w2)" by (simp add: scrape_except_def)
next
  show "\<exists>r1. scrape_except b st (Inl e, w2) = (Inr r1, w2) \<and> status r1 = ''error''
         \<and> error_message r1 \<noteq> None \<and> products_found r1 = 0 \<and> products_added r1 = 0
         \<and> products_updated r1 = 0" by (rule scrape_except_Inl)
qed


theorem scrape_final_status_witness:
  "truthy (Some ''k'')
   \<and> fst (load_targets (store_backend example_upstream example_xml) (Some [''35356138'']) empty_store) \<noteq> []
   \<and> (\<exists>r w2. scrape (store_backend example_upstream example_xml) (Some ''k'') False 5
                 (Some [''35356138'']) empty_store = (Inr r, w2)
           \<and> 0 \<le> products_found r
           \<and> (1 \<le> products_found r \<longrightarrow> status r = ''success'')
           \<and> (products_found r = 0 \<longrightarrow> status r = ''warning''))
   \<and> fst (scrape (store_backend example_upstream example_xml) (Some ''k'') False 5
            (Some [''35356138'']) empty_store)
       = Inr \<lparr>r_source = ''GOAT'', products_found = 1, products_added = 1, products_updated = 0,
               duration_seconds = 0, status = ''success'',
               message = Some ''Scraped 1 works (API may have limited access)'',
               error_message = None\<rparr>
   \<and> fst (scrape (store_backend example_upstream example_xml) (Some ''k'') False 5
            (Some [''1'']) empty_store)
       = Inr \<lparr>r_source = ''GOAT'', products_found = 0, products_added = 0, products_updated = 0,
               duration_seconds = 0, status = ''warning'',
               message = Some ''No works could be fetched. LibraryThing API is likely blocked by CloudFlare. Use scrape_url() for individual books instead.'',
               error_message = None\<rparr>
   \<and> status (scrape_error_report (OtherError ''boom'') 0) = ''error''"
proof -
  let ?b = "store_backend example_upstream example_xml"
  have a: "truthy (Some ''k'')" by (simp add: truthy_def)
  have l: "fst (load_targets ?b (Some [''35356138'']) empty_store) \<noteq> []"
    by (simp add: load_targets_def truthy_def)
  from a l have hyp: "truthy (Some ''k'') \<and> fst (load_targets ?b (Some [''35356138'']) empty_store) \<noteq> []"
    by (intro conjI)
  note t = scrape_final_status[of "Some ''k''" ?b "Some [''35356138'']" empty_store False 5
      example_clock initial_results empty_store "OtherError ''boom''"]
  note c = t[THEN conjunct1, THEN mp, OF hyp]
  have d: "fst (scrape ?b (Some ''k'') False 5 (Some [''35356138'']) empty_store)
       = Inr \<lparr>r_source = ''GOAT'', products_found = 1, products_added = 1, products_updated = 0,
               duration_seconds = 0, status = ''success'',
               message = Some ''Scraped 1 works (API may have limited access)'',
               error_message = None\<rparr>"
    by code_simp
  have e: "fst (scrape ?b (Some ''k'') False 5 (Some [''1'']) empty_store)
       = Inr \<lparr>r_source = ''GOAT'', products_found = 0, products_added = 0, products_updated = 0,
               duration_seconds = 0, status = ''warning'',
               message = Some ''No works could be fetched. LibraryThing API is likely blocked by CloudFlare. Use scrape_url() for individual books instead.'',
               error_message = None\<rparr>"
    by code_simp
  have f: "status (scrape_error_report (OtherError ''boom'') 0) = ''error''"
    by (simp add: scrape_error_report_def)
  from a l c d e f show ?thesis by (intro conjI)
qed

section \<open>The test-mode cap\<close>

lemma scrape_loop_limit_reached:
  "test_limit \<le> int i \<Longrightarrow> scrape_loop b api_key True test_limit i targets results w = (results, w)"
  by (cases targets) simp_all

lemma scrape_test_mode_explicit:
  assumes "us \<noteq> []" "1 \<le> test_limit"
  shows "scrape b api_key True test_limit (Some us) w
       = scrape b api_key False other_limit (Some (take (nat test_limit) us)) w"
proof -
  from assms have ne: "take (nat test_limit) us \<noteq> []" by (cases us) auto
  have l: "scrape_loop b api_key True test_limit 0 us initial_results w
         = scrape_loop b api_key False other_limit 0 (take (nat test_limit) us) initial_results w"
    using scrape_loop_take[of b api_key test_limit 0 us initial_results w other_limit] by simp
  have "scrape_try b api_key True test_limit (Some us) (utcnow b w) w
      = scrape_try b api_key False other_limit (Some (take (nat test_limit) us)) (utcnow b w) w"
    using assms(1) ne by (simp add: scrape_try_def load_targets_def truthy_def l)
  then show ?thesis by (simp add: scrape_def)
qed

text \<open>
  C7. With \<^verbatim>\<open>test_mode=True\<close> and \<^verbatim>\<open>test_limit=N\<close> the loop deals with the first \<open>N\<close> targets
  only, whatever happens to each of them: it behaves as the loop without test mode on the
  first \<open>N\<close> entries of the target list (at most \<open>N\<close> of them), and it stops as soon as the
  index of the next target has reached \<open>N\<close>. For explicit \<^verbatim>\<open>urls\<close> and \<open>N\<close> at least 1 the whole
  \<^verbatim>\<open>scrape\<close> equals the run without test mode on the first \<open>N\<close> urls.
\<close>

theorem scrape_test_limit:
  "scrape_loop b api_key True test_limit 0 targets results w
     = scrape_loop b api_key False other_limit 0 (take (nat test_limit) targets) results w
   \<and> length (take (nat test_limit) targets) \<le> nat test_limit
   \<and> (test_limit \<le> int i
       \<longrightarrow> scrape_loop b api_key True test_limit i targets results w = (results, w))
   \<and> (us \<noteq> [] \<and> 1 \<le> test_limit
       \<longrightarrow> scrape b api_key True test_limit (Some us) w
           = scrape b api_key False other_limit (Some (take (nat test_limit) us)) w)"
proof (intro conjI impI)
  show "scrape_loop b api_key True test_limit 0 targets results w
     = scrape_loop b api_key False other_limit 0 (take (nat test_limit) targets) results w"
    using scrape_loop_take[of b api_key test_limit 0 targets results w other_limit] by simp
next
  show "length (take (nat test_limit) targets) \<le> nat test_limit" by simp
next
  assume "test_limit \<le> int i"
  then show "scrape_loop b api_key True test_limit i targets results w = (results, w)"
    by (rule scrape_loop_limit_reached)
next
  assume h: "us \<noteq> [] \<and> 1 \<le> test_limit"
  show "scrape b api_key True test_limit (Some us) w
           = scrape b api_key False other_limit (Some (take (nat test_limit) us)) w"
    by (rule scrape_test_mode_explicit[OF h[THEN conjunct1] h[THEN conjunct2]])
qed

theorem scrape_test_limit_witness:
  "(2::int) \<le> int 2
   \<and> scrape_loop (store_backend example_upstream example_xml) (Some ''k'') True 2 2
        [''1'', ''abc'', ''35356138''] initial_results empty_store = (initial_results, empty_store)
   \<and> [''1'', ''abc'', ''35356138''] \<noteq> [] \<and> (1::int) \<le> 2
   \<and> scrape (store_backend example_upstream example_xml) (Some ''k'') True 2
        (Some [''1'', ''abc'', ''35356138'']) empty_store
       = scrape (store_backend example_upstream example_xml) (Some ''k'') False 5
           (Some [''1'', ''abc'']) empty_store
   \<and> fst (scrape (store_backend example_upstream example_xml) (Some ''k'') True 2
        (Some [''1'', ''abc'', ''35356138'']) empty_store)
       = Inr \<lparr>r_source = ''GOAT'', products_found = 0, products_added = 0, products_updated = 0,
               duration_seconds = 0, status = ''warning'',
               message = Some ''No works could be fetched. LibraryThing API is likely blocked by CloudFlare. Use scrape_url() for individual books instead.'',
               error_message = None\<rparr>"
proof -
  let ?b = "store_backend example_upstream example_xml"
  let ?us = "[''1'', ''abc'', ''35356138'']"
  note t = scrape_test_limit[of ?b "Some ''k''" 2 ?us initial_results empty_store 5 2 ?us]
  have a: "(2::int) \<le> int 2" by simp
  note b = t[THEN conjunct2, THEN conjunct2, THEN conjunct1, THEN mp, OF a]
  have c: "?us \<noteq> [] \<and> (1::int) \<le> 2" by simp
  have tk: "take (nat 2) ?us = [''1'', ''abc'']" by simp
  from t[THEN conjunct2, THEN conjunct2, THEN conjunct2, THEN mp, OF c]
  have d: "scrape ?b (Some ''k'') True 2 (Some ?us) empty_store
       = scrape ?b (Some ''k'') False 5 (Some [''1'', ''abc'']) empty_store"
    unfolding tk .
  have e: "fst (scrape ?b (Some ''k'') False 5 (Some [''1'', ''abc'']) empty_store)
       = Inr \<lparr>r_source = ''GOAT'', products_found = 0, products_added = 0, products_updated = 0,
               duration_seconds = 0, status = ''warning'',
               message = Some ''No works could be fetched. LibraryThing API is likely blocked by CloudFlare. Use scrape_url() for individual books instead.'',
               error_message = None\<rparr>"
    by code_simp
  from e have f: "fst (scrape ?b (Some ''k'') True 2 (Some ?us) empty_store)
       = Inr \<lparr>r_source = ''GOAT'', products_found = 0, products_added = 0, products_updated = 0,
               duration_seconds = 0, status = ''warning'',
               message = Some ''No works could be fetched. LibraryThing API is likely blocked by CloudFlare. Use scrape_url() for individual books instead.'',
               error_message = None\<rparr>"
    unfolding d .
  from a b c[THEN conjunct1] c[THEN conjunct2] d f show ?thesis by (intro conjI)
qed

section \<open>A failing row-store write\<close>

lemma process_target_fetched:
  assumes "target_work_id t = Some wid" "wid \<noteq> []"
    "fetch_work_details b api_key wid w = (Some wd, w1)"
  shows "process_target b api_key t results w
       = store_product b wid (create_product_dict wd (target_source_url t) (utcnow b w1)) results w1"
  using assms by (simp add: process_target_def)

lemma store_product_update_failed:
  assumes "product_exists b w1 (product_url_of wid payload) = (Inr (Some row), w2)" "row \<noteq> []"
    "map_of row ''id'' = Some pid" "update_product b w2 pid payload = (Inr False, w3)"
  shows "store_product b wid payload results w1
       = (None, results\<lparr>products_found := products_found results + 1\<rparr>, w3)"
  using assms by (simp add: store_product_def truthy_def)

lemma store_product_create_failed:
  assumes "product_exists b w1 (product_url_of wid payload) = (Inr existing, w2)"
    "existing = None \<or> existing = Some []"
    "create_product b w2 payload = (Inr False, w3)"
  shows "store_product b wid payload results w1
       = (None, results\<lparr>products_found := products_found results + 1\<rparr>, w3)"
  using assms by (auto simp: store_product_def truthy_def)

text \<open>
  C8. When the fetch and the normalisation of a target succeed and the row-store write
  fails, that is \<^verbatim>\<open>_update_product\<close> (for an existing product) or \<^verbatim>\<open>_create_product\<close>
  (otherwise) returns \<^verbatim>\<open>False\<close>, the loop body adds 1 to \<^verbatim>\<open>products_found\<close>, leaves
  \<^verbatim>\<open>products_added\<close> and \<^verbatim>\<open>products_updated\<close> as they were, and the loop continues with the
  next target.
\<close>

theorem write_failure_counts_found:
  "target_work_id t = Some wid \<and> wid \<noteq> []
   \<and> fetch_work_details b api_key wid w = (Some wd, w1)
   \<and> payload = create_product_dict wd (target_source_url t) (utcnow b w1)
   \<and> product_exists b w1 (product_url_of wid payload) = (Inr existing, w2)
   \<and> ((existing = Some row \<and> row \<noteq> [] \<and> map_of row ''id'' = Some pid
         \<and> update_product b w2 pid payload = (Inr False, w3))
        \<or> ((existing = None \<or> existing = Some [])
            \<and> create_product b w2 payload = (Inr False, w3)))
   \<longrightarrow> process_target b api_key t results w
         = (None, results\<lparr>products_found := products_found results + 1\<rparr>, w3)
       \<and> (\<not> (test_mode \<and> test_limit \<le> int i)
           \<longrightarrow> scrape_loop b api_key test_mode test_limit i (t # ts) results w
               = scrape_loop b api_key test_mode test_limit (Suc i) ts
                   (results\<lparr>products_found := products_found results + 1\<rparr>) w3)"
proof (intro impI)
  assume h: "target_work_id t = Some wid \<and> wid \<noteq> []
   \<and> fetch_work_details b api_key wid w = (Some wd, w1)
   \<and> payload = create_product_dict wd (target_source_url t) (utcnow b w1)
   \<and> product_exists b w1 (product_url_of wid payload) = (Inr existing, w2)
   \<and> ((existing = Some row \<and> row \<noteq> [] \<and> map_of row ''id'' = Some pid
         \<and> update_product b w2 pid payload = (Inr False, w3))
        \<or> ((existing = None \<or> existing = Some [])
            \<and> create_product b w2 payload = (Inr False, w3)))"
  note a1 = h[THEN conjunct1]
  note a2 = h[THEN conjunct2, THEN conjunct1]
  note a3 = h[THEN conjunct2, THEN conjunct2, THEN conjunct1]
  note a4 = h[THEN conjunct2, THEN conjunct2, THEN conjunct2, THEN conjunct1]
  note a5 = h[THEN conjunct2, THEN conjunct2, THEN conjunct2, THEN conjunct2, THEN conjunct1]
  note d = h[THEN conjunct2, THEN conjunct2, THEN conjunct2, THEN conjunct2, THEN conjunct2]
  have sp: "store_product b wid payload results w1
       = (None, results\<lparr>products_found := products_found results + 1\<rparr>, w3)"
  proof (rule disjE[OF d])
    assume u: "existing = Some row \<and> row \<noteq> [] \<and> map_of row ''id'' = Some pid
         \<and> update_product b w2 pid payload = (Inr False, w3)"
    with a5 have "product_exists b w1 (product_url_of wid payload) = (Inr (Some row), w2)" by simp
    from store_product_update_failed[OF this] u show ?thesis by simp
  next
    assume c: "(existing = None \<or> existing = Some [])
            \<and> create_product b w2 payload = (Inr False, w3)"
    from store_product_create_failed[OF a5 c[THEN conjunct1] c[THEN conjunct2]]
    show ?thesis .
  qed
  from process_target_fetched[OF a1 a2 a3, of results] a4 sp
  have pt: "process_target b api_key t results w
         = (None, results\<lparr>products_found := products_found results + 1\<rparr>, w3)"
    by simp
  show "process_target b api_key t results w
         = (None, results\<lparr>products_found := products_found results + 1\<rparr>, w3)
       \<and> (\<not> (test_mode \<and> test_limit \<le> int i)
           \<longrightarrow> scrape_loop b api_key test_mode test_limit i (t # ts) results w
               = scrape_loop b api_key test_mode test_limit (Suc i) ts
                   (results\<lparr>products_found := products_found results + 1\<rparr>) w3)"
  proof (intro conjI impI)
    show "process_target b api_key t results w
         = (None, results\<lparr>products_found := products_found results + 1\<rparr>, w3)" by (rule pt)
  next
    assume n: "\<not> (test_mode \<and> test_limit \<le> int i)"
    show "scrape_loop b api_key test_mode test_limit i (t # ts) results w
               = scrape_loop b api_key test_mode test_limit (Suc i) ts
                   (results\<lparr>products_found := products_found results + 1\<rparr>) w3"
      by (rule scrape_loop_step[OF n pt])
  qed
qed


theorem write_failure_counts_found_witness:
  "target_work_id ''35356138'' = Some ''35356138'' \<and> ''35356138'' \<noteq> []
   \<and> fetch_work_details (read_only_backend example_upstream example_xml) (Some ''k'') ''35356138''
        garden_store = (Some garden_work, garden_store)
   \<and> product_exists (read_only_backend example_upstream example_xml) garden_store
        (product_url_of ''35356138'' (create_product_dict garden_work None example_clock))
       = (Inr (Some [(''id'', ''7''), (''url'', ''https://www.librarything.com/work/35356138'')]),
          garden_store)
   \<and> update_product (read_only_backend example_upstream example_xml) garden_store ''7''
        (create_product_dict garden_work None example_clock) = (Inr False, garden_store)
   \<and> process_target (read_only_backend example_upstream example_xml) (Some ''k'') ''35356138''
        initial_results garden_store
       = (None, initial_results\<lparr>products_found := products_found initial_results + 1\<rparr>, garden_store)
   \<and> product_exists (read_only_backend example_upstream example_xml) empty_store
        (product_url_of ''35356138'' (create_product_dict garden_work None example_clock))
       = (Inr None, empty_store)
   \<and> create_product (read_only_backend example_upstream example_xml) empty_store
        (create_product_dict garden_work None example_clock) = (Inr False, empty_store)
   \<and> scrape_loop (read_only_backend example_upstream example_xml) (Some ''k'') False 5 0
        [''35356138''] initial_results empty_store
       = (initial_results\<lparr>products_found := 1\<rparr>, empty_store)"
proof -
  let ?b = "read_only_backend example_upstream example_xml"
  let ?p = "create_product_dict garden_work None example_clock"
  let ?row = "[(''id'', ''7''), (''url'', ''https://www.librarything.com/work/35356138'')]"
  have tw: "target_work_id ''35356138'' = Some ''35356138''" by code_simp
  have ne: "''35356138'' \<noteq> []" by simp
  have su: "target_source_url ''35356138'' = None" by code_simp
  have cg: "utcnow ?b garden_store = example_clock" by code_simp
  have ce: "utcnow ?b empty_store = example_clock" by code_simp
  have fg: "fetch_work_details ?b (Some ''k'') ''35356138'' garden_store = (Some garden_work, garden_store)"
    by code_simp
  have fe: "fetch_work_details ?b (Some ''k'') ''35356138'' empty_store = (Some garden_work, empty_store)"
    by code_simp
  have pg: "?p = create_product_dict garden_work (target_source_url ''35356138'') (utcnow ?b garden_store)"
    unfolding su cg ..
  have pe: "?p = create_product_dict garden_work (target_source_url ''35356138'') (utcnow ?b empty_store)"
    unfolding su ce ..
  have xg: "product_exists ?b garden_store (product_url_of ''35356138'' ?p) = (Inr (Some ?row), garden_store)"
    by code_simp
  have xe: "product_exists ?b empty_store (product_url_of ''35356138'' ?p) = (Inr None, empty_store)"
    by code_simp
  have rowne: "?row \<noteq> []" by simp
  have rid: "map_of ?row ''id'' = Some ''7''" by simp
  have ug: "update_product ?b garden_store ''7'' ?p = (Inr False, garden_store)" by code_simp
  have cr: "create_product ?b empty_store ?p = (Inr False, empty_store)" by code_simp
  have hg: "target_work_id ''35356138'' = Some ''35356138'' \<and> ''35356138'' \<noteq> []
   \<and> fetch_work_details ?b (Some ''k'') ''35356138'' garden_store = (Some garden_work, garden_store)
   \<and> ?p = create_product_dict garden_work (target_source_url ''35356138'') (utcnow ?b garden_store)
   \<and> product_exists ?b garden_store (product_url_of ''35356138'' ?p) = (Inr (Some ?row), garden_store)
   \<and> ((Some ?row = Some ?row \<and> ?row \<noteq> [] \<and> map_of ?row ''id'' = Some ''7''
         \<and> update_product ?b garden_store ''7'' ?p = (Inr False, garden_store))
        \<or> ((Some ?row = None \<or> Some ?row = Some [])
            \<and> create_product ?b garden_store ?p = (Inr False, garden_store)))"
    using tw ne fg pg xg rowne rid ug by (intro conjI disjI1 refl)
  have he: "target_work_id ''35356138'' = Some ''35356138'' \<and> ''35356138'' \<noteq> []
   \<and> fetch_work_details ?b (Some ''k'') ''35356138'' empty_store = (Some garden_work, empty_store)
   \<and> ?p = create_product_dict garden_work (target_source_url ''35356138'') (utcnow ?b empty_store)
   \<and> product_exists ?b empty_store (product_url_of ''35356138'' ?p) = (Inr None, empty_store)
   \<and> ((None = Some ?row \<and> ?row \<noteq> [] \<and> map_of ?row ''id'' = Some ''7''
         \<and> update_product ?b empty_store ''7'' ?p = (Inr False, empty_store))
        \<or> ((None = None \<or> None = Some [])
            \<and> create_product ?b empty_store ?p = (Inr False, empty_store)))"
    using tw ne fe pe xe cr by (intro conjI disjI2 disjI1 refl)
  note tg = write_failure_counts_found[of "''35356138''" "''35356138''" ?b "Some ''k''" garden_store
      garden_work garden_store ?p "Some ?row" garden_store ?row "''7''" garden_store
      initial_results False 5 0 "[]", THEN mp, OF hg]
  note te = write_failure_counts_found[of "''35356138''" "''35356138''" ?b "Some ''k''" empty_store
      garden_work empty_store ?p None empty_store ?row "''7''" empty_store
      initial_results False 5 0 "[]", THEN mp, OF he]
  have nb: "\<not> (False \<and> 5 \<le> int 0)" by simp
  from te[THEN conjunct2, THEN mp, OF nb]
  have sl: "scrape_loop ?b (Some ''k'') False 5 0 [''35356138''] initial_results empty_store
       = (initial_results\<lparr>products_found := 1\<rparr>, empty_store)"
    by (simp add: initial_results_def)
  from tw ne fg xg ug tg[THEN conjunct1] xe cr sl show ?thesis by (intro conjI)
qed

section \<open>Exceptions stay inside the run\<close>


































section \<open>Running the scrape twice\<close>

lemma fetch_work_details_store:
  "fetch_work_details (store_backend upstream xml) api_key wid s
     = (fst (fetch_work_details (store_backend upstream xml) api_key wid s0), s)"
  by (simp add: fetch_work_details_def base_throttle_request_def split: option.splits sum.splits)

lemma fetch_work_details_url:
  assumes "fetch_work_details b api_key wid w = (Some wd, w1)"
  shows "wd_url wd = Val (''https://www.librarything.com/work/'' @ wid)"
proof -
  from assms obtain p where p: "parse_xml_response p wid = Some wd"
    by (auto simp: fetch_work_details_def split: option.splits sum.splits prod.splits if_splits)
  then show ?thesis
    by (auto simp: parse_xml_response_def Let_def split: sum.splits option.splits if_splits)
qed

lemma payload_url:
  assumes "wd_url wd = Val u0" "u0 \<noteq> []"
  shows "p_url (create_product_dict wd su now) = Some (product_url_of wid (create_product_dict wd su now))"
    and "product_url_of wid (create_product_dict wd su now) = product_url_of wid (create_product_dict wd su now')"
  using assms
  by (auto simp: create_product_dict_def product_url_of_def py_or_def truthy_def dict_get_def
        str_or_def Let_def split: option.splits)

lemma fetched_url_store:
  "fetched_url (store_backend upstream xml) api_key s t
     = fetched_url (store_backend upstream xml) api_key s0 t"
proof -
  let ?b = "store_backend upstream xml"
  show ?thesis
  proof (cases "\<exists>wid wd. target_work_id t = Some wid \<and> wid \<noteq> []
                   \<and> fst (fetch_work_details ?b api_key wid s0) = Some wd")
    case True
    then obtain wid wd where h: "target_work_id t = Some wid" "wid \<noteq> []"
        "fst (fetch_work_details ?b api_key wid s0) = Some wd" by (elim exE conjE)
    from h(3) have f0: "fetch_work_details ?b api_key wid s0 = (Some wd, s0)"
      using fetch_work_details_store[of upstream xml api_key wid s0 s0] by simp
    from h(3) have f: "fst (fetch_work_details ?b api_key wid s) = Some wd"
      using fetch_work_details_store[of upstream xml api_key wid s s0] by simp
    note u = fetch_work_details_url[OF f0]
    have ne: "''https://www.librarything.com/work/'' @ wid \<noteq> []" by simp
    from payload_url(2)[OF u ne] h f show ?thesis by (simp add: fetched_url_def)
  next
    case False
    have "fst (fetch_work_details ?b api_key wid s) = fst (fetch_work_details ?b api_key wid s0)" for wid
      using fetch_work_details_store[of upstream xml api_key wid s s0] by simp
    with False show ?thesis
      by (auto simp: fetched_url_def split: option.splits)
  qed
qed



lemma fresh_id_longer: "i \<in> set ids \<Longrightarrow> length i < length (fresh_id ids)"
  by (induction ids) (auto simp: fresh_id_def)

lemma fresh_id_fresh: "fresh_id ids \<notin> set ids"
  using fresh_id_longer[of "fresh_id ids" ids] by auto

lemma map_fst_row_keys: "map fst (row_keys s) = map fst (st_products s)"
  by (simp add: row_keys_def)

lemma snd_row_keys: "snd ` set (row_keys s) = (\<lambda>r. p_url (snd r)) ` set (st_products s)"
  by (simp add: row_keys_def image_image)

lemma in_row_keys_iff:
  "u \<in> snd ` set (row_keys s) \<longleftrightarrow> (\<exists>r\<in>set (st_products s). p_url (snd r) = u)"
proof
  assume "u \<in> snd ` set (row_keys s)"
  then have "u \<in> (\<lambda>r. p_url (snd r)) ` set (st_products s)" by (simp only: snd_row_keys)
  then obtain r where "u = p_url (snd r)" "r \<in> set (st_products s)" by (rule imageE)
  then show "\<exists>r\<in>set (st_products s). p_url (snd r) = u" by (intro bexI[of _ r]) simp_all
next
  assume "\<exists>r\<in>set (st_products s). p_url (snd r) = u"
  then obtain r where "r \<in> set (st_products s)" "p_url (snd r) = u" by (rule bexE)
  then have "u \<in> (\<lambda>r. p_url (snd r)) ` set (st_products s)" by (intro image_eqI[of _ _ r]) simp_all
  then show "u \<in> snd ` set (row_keys s)" by (simp only: snd_row_keys)
qed

lemma store_product_update:
  assumes ok: "store_ok s" and pu: "p_url payload = Some (product_url_of wid payload)"
    and mem: "Some (product_url_of wid payload) \<in> snd ` set (row_keys s)"
  shows "\<exists>s'. store_product (store_backend upstream xml) wid payload res s
           = (None, res\<lparr>products_updated := products_updated res + 1,
                         products_found := products_found res + 1\<rparr>, s')
          \<and> row_keys s' = row_keys s \<and> st_available s' \<and> st_terms s' = st_terms s
          \<and> st_now s' = st_now s"
proof -
  let ?U = "product_url_of wid payload"
  let ?P = "\<lambda>r. p_url (snd r) = Some ?U"
  from mem have "\<exists>r\<in>set (st_products s). ?P r" by (simp only: in_row_keys_iff)
  then obtain r where r: "List.find ?P (st_products s) = Some r"
    by (cases "List.find ?P (st_products s)") (auto simp: find_None_iff)
  then have rin: "r \<in> set (st_products s)" and rp: "?P r"
    by (auto simp: find_Some_iff)
  from ok have av: "st_available s" and di: "distinct (map fst (st_products s))"
    by (simp_all add: store_ok_def map_fst_row_keys)
  let ?upd = "\<lambda>r'. if fst r' = fst r then (fst r', merge_product (snd r') payload) else r'"
  let ?s' = "s\<lparr>st_products := map ?upd (st_products s)\<rparr>"
  have ex: "base_product_exists s ?U = (Inr (Some [(''id'', fst r), (''url'', ?U)]), s)"
    using av r by (simp add: base_product_exists_def)
  have up: "base_update_product s (fst r) payload = (Inr True, ?s')"
    using av by (simp add: base_update_product_def)
  have sp: "store_product (store_backend upstream xml) wid payload res s
           = (None, res\<lparr>products_updated := products_updated res + 1,
                         products_found := products_found res + 1\<rparr>, ?s')"
    using ex up by (simp add: store_product_def truthy_def)
  have "(\<lambda>r'. (fst r', p_url (snd r'))) (?upd r') = (fst r', p_url (snd r'))"
    if "r' \<in> set (st_products s)" for r'
  proof (cases "fst r' = fst r")
    case True
    with di that rin have "r' = r" by (meson distinct_map inj_onD)
    with rp pu show ?thesis by (simp add: merge_product_def keep_old_def)
  next
    case False
    then show ?thesis by simp
  qed
  then have rk: "row_keys ?s' = row_keys s" by (simp add: row_keys_def)
  from sp rk av show ?thesis by (intro exI[of _ ?s'] conjI) simp_all
qed

lemma store_product_create:
  assumes ok: "store_ok s" and pu: "p_url payload = Some (product_url_of wid payload)"
    and nmem: "Some (product_url_of wid payload) \<notin> snd ` set (row_keys s)"
  shows "\<exists>s'. store_product (store_backend upstream xml) wid payload res s
           = (None, res\<lparr>products_added := products_added res + 1,
                         products_found := products_found res + 1\<rparr>, s')
          \<and> row_keys s' = row_keys s @ [(fresh_id (map fst (st_products s)), Some (product_url_of wid payload))]
          \<and> store_ok s' \<and> st_terms s' = st_terms s \<and> st_now s' = st_now s"
proof -
  let ?U = "product_url_of wid payload"
  let ?P = "\<lambda>r. p_url (snd r) = Some ?U"
  from nmem have "\<not> (\<exists>r\<in>set (st_products s). ?P r)" by (simp only: in_row_keys_iff not_False_eq_True)
  then have r: "List.find ?P (st_products s) = None" by (auto simp: find_None_iff)
  from ok have av: "st_available s" and di: "distinct (map fst (st_products s))"
    by (simp_all add: store_ok_def map_fst_row_keys)
  let ?s' = "s\<lparr>st_products := st_products s @ [(fresh_id (map fst (st_products s)), payload)]\<rparr>"
  have ex: "base_product_exists s ?U = (Inr None, s)"
    using av r by (simp add: base_product_exists_def)
  have cr: "base_create_product s payload = (Inr True, ?s')"
    using av by (simp add: base_create_product_def)
  have sp: "store_product (store_backend upstream xml) wid payload res s
           = (None, res\<lparr>products_added := products_added res + 1,
                         products_found := products_found res + 1\<rparr>, ?s')"
    using ex cr by (simp add: store_product_def truthy_def)
  have rk: "row_keys ?s' = row_keys s @ [(fresh_id (map fst (st_products s)), Some ?U)]"
    using pu by (simp add: row_keys_def)
  have ok': "store_ok ?s'"
    using av di fresh_id_fresh[of "map fst (st_products s)"] by (simp add: store_ok_def map_fst_row_keys)
  from sp rk ok' show ?thesis by (intro exI[of _ ?s'] conjI) simp_all
qed


lemma process_target_store_skip:
  assumes "fetched_url (store_backend upstream xml) api_key s t = None"
  shows "process_target (store_backend upstream xml) api_key t res s = (None, res, s)"
proof -
  let ?b = "store_backend upstream xml"
  have f: "fetch_work_details ?b api_key wid s = (fst (fetch_work_details ?b api_key wid s), s)" for wid
    by (rule fetch_work_details_store)
  show ?thesis
  proof (cases "target_work_id t")
    case None
    then show ?thesis by (simp add: process_target_def)
  next
    case (Some wid)
    show ?thesis
    proof (cases "wid = []")
      case True
      with Some show ?thesis by (simp add: process_target_def)
    next
      case False
      with Some assms have "fst (fetch_work_details ?b api_key wid s) = None"
        by (simp add: fetched_url_def split: option.splits)
      with f[of wid] have "fetch_work_details ?b api_key wid s = (None, s)" by simp
      from process_target_not_fetched[OF Some False this] show ?thesis .
    qed
  qed
qed

lemma process_target_store_fetch:
  assumes "fetched_url (store_backend upstream xml) api_key s t = Some U"
  shows "\<exists>wid payload. process_target (store_backend upstream xml) api_key t res s
             = store_product (store_backend upstream xml) wid payload res s
           \<and> product_url_of wid payload = U \<and> p_url payload = Some (product_url_of wid payload)"
proof -
  let ?b = "store_backend upstream xml"
  from assms obtain wid where w: "target_work_id t = Some wid"
    by (cases "target_work_id t") (simp_all add: fetched_url_def)
  from assms w have ne: "wid \<noteq> []" by (auto simp: fetched_url_def split: if_splits)
  from assms w ne obtain wd where wd: "fst (fetch_work_details ?b api_key wid s) = Some wd"
    by (cases "fst (fetch_work_details ?b api_key wid s)") (simp_all add: fetched_url_def)
  let ?p = "create_product_dict wd (target_source_url t) (utcnow ?b s)"
  from assms w ne wd have u: "product_url_of wid ?p = U" by (simp add: fetched_url_def)
  from wd fetch_work_details_store[of upstream xml api_key wid s s]
  have f: "fetch_work_details ?b api_key wid s = (Some wd, s)" by simp
  have une: "''https://www.librarything.com/work/'' @ wid \<noteq> []" by simp
  note pu = payload_url(1)[OF fetch_work_details_url[OF f] une, of "target_source_url t" "utcnow ?b s" wid]
  from process_target_fetched[OF w ne f, of res] u pu
  show ?thesis by (intro exI[of _ wid] exI[of _ ?p] conjI)
qed

lemma process_target_store_update:
  assumes "store_ok s" "fetched_url (store_backend upstream xml) api_key s t = Some U"
    "Some U \<in> snd ` set (row_keys s)"
  shows "\<exists>s'. process_target (store_backend upstream xml) api_key t res s
           = (None, res\<lparr>products_updated := products_updated res + 1,
                         products_found := products_found res + 1\<rparr>, s')
          \<and> row_keys s' = row_keys s \<and> st_available s' \<and> st_terms s' = st_terms s
          \<and> st_now s' = st_now s"
proof -
  from process_target_store_fetch[OF assms(2), of res]
  obtain wid payload where h: "process_target (store_backend upstream xml) api_key t res s
             = store_product (store_backend upstream xml) wid payload res s"
      "product_url_of wid payload = U" "p_url payload = Some (product_url_of wid payload)"
    by (elim exE conjE)
  from assms(3) h(2) have "Some (product_url_of wid payload) \<in> snd ` set (row_keys s)" by simp
  from store_product_update[OF assms(1) h(3) this, of upstream xml res] h(1) show ?thesis by simp
qed

lemma process_target_store_create:
  assumes "store_ok s" "fetched_url (store_backend upstream xml) api_key s t = Some U"
    "Some U \<notin> snd ` set (row_keys s)"
  shows "\<exists>s'. process_target (store_backend upstream xml) api_key t res s
           = (None, res\<lparr>products_added := products_added res + 1,
                         products_found := products_found res + 1\<rparr>, s')
          \<and> row_keys s' = row_keys s @ [(fresh_id (map fst (st_products s)), Some U)]
          \<and> store_ok s' \<and> st_terms s' = st_terms s \<and> st_now s' = st_now s"
proof -
  from process_target_store_fetch[OF assms(2), of res]
  obtain wid payload where h: "process_target (store_backend upstream xml) api_key t res s
             = store_product (store_backend upstream xml) wid payload res s"
      "product_url_of wid payload = U" "p_url payload = Some (product_url_of wid payload)"
    by (elim exE conjE)
  from assms(3) h(2) have "Some (product_url_of wid payload) \<notin> snd ` set (row_keys s)" by simp
  from store_product_create[OF assms(1) h(3) this, of upstream xml res] h(1,2) show ?thesis by simp
qed


lemma scrape_loop_store_known:
  assumes "store_ok s"
    "\<forall>t\<in>set ts. \<forall>U. fetched_url (store_backend upstream xml) api_key s0 t = Some U
        \<longrightarrow> Some U \<in> snd ` set (row_keys s)"
  shows "\<exists>res' s'. scrape_loop (store_backend upstream xml) api_key False other_limit i ts res s = (res', s')
          \<and> row_keys s' = row_keys s \<and> st_available s' \<and> st_terms s' = st_terms s
          \<and> st_now s' = st_now s
          \<and> products_added res' = products_added res
          \<and> products_updated res' = products_updated res
               + int (length (filter (\<lambda>t. fetched_url (store_backend upstream xml) api_key s0 t \<noteq> None) ts))
          \<and> products_found res' = products_found res
               + int (length (filter (\<lambda>t. fetched_url (store_backend upstream xml) api_key s0 t \<noteq> None) ts))"
  using assms
proof (induction ts arbitrary: i res s)
  case Nil
  then show ?case by (simp add: store_ok_def)
next
  case (Cons t ts)
  let ?b = "store_backend upstream xml"
  let ?f = "\<lambda>t. fetched_url ?b api_key s0 t"
  have fs: "fetched_url ?b api_key s t = ?f t" by (rule fetched_url_store)
  show ?case
  proof (cases "?f t")
    case None
    with fs have "fetched_url ?b api_key s t = None" by simp
    from process_target_store_skip[OF this, of res]
    have st: "scrape_loop ?b api_key False other_limit i (t # ts) res s
            = scrape_loop ?b api_key False other_limit (Suc i) ts res s" by simp
    from Cons.prems(2) have k: "\<forall>t\<in>set ts. \<forall>U. ?f t = Some U \<longrightarrow> Some U \<in> snd ` set (row_keys s)"
      by simp
    from Cons.IH[OF Cons.prems(1) k, of "Suc i" res] st None show ?thesis by simp
  next
    case (Some U)
    with fs have fu: "fetched_url ?b api_key s t = Some U" by simp
    from Cons.prems(2) Some have mem: "Some U \<in> snd ` set (row_keys s)" by simp
    from process_target_store_update[OF Cons.prems(1) fu mem, of res]
    obtain s1 where s1: "process_target ?b api_key t res s
           = (None, res\<lparr>products_updated := products_updated res + 1,
                         products_found := products_found res + 1\<rparr>, s1)"
        "row_keys s1 = row_keys s" "st_available s1" "st_terms s1 = st_terms s" "st_now s1 = st_now s"
      by (elim exE conjE)
    let ?r1 = "res\<lparr>products_updated := products_updated res + 1,
                         products_found := products_found res + 1\<rparr>"
    from s1(1) have st: "scrape_loop ?b api_key False other_limit i (t # ts) res s
            = scrape_loop ?b api_key False other_limit (Suc i) ts ?r1 s1" by simp
    from Cons.prems(1) s1(2,3) have ok1: "store_ok s1" by (simp add: store_ok_def)
    from Cons.prems(2) s1(2)
    have k: "\<forall>t\<in>set ts. \<forall>U. ?f t = Some U \<longrightarrow> Some U \<in> snd ` set (row_keys s1)" by simp
    from Cons.IH[OF ok1 k, of "Suc i" ?r1] st Some s1(2,4,5) show ?thesis by (simp add: add.assoc)
  qed
qed

lemma scrape_loop_store_first:
  assumes "store_ok s"
  shows "\<exists>res' s'. scrape_loop (store_backend upstream xml) api_key False other_limit i ts res s = (res', s')
          \<and> store_ok s' \<and> st_terms s' = st_terms s \<and> st_now s' = st_now s
          \<and> snd ` set (row_keys s) \<subseteq> snd ` set (row_keys s')
          \<and> (\<forall>t\<in>set ts. \<forall>U. fetched_url (store_backend upstream xml) api_key s0 t = Some U
                \<longrightarrow> Some U \<in> snd ` set (row_keys s'))
          \<and> products_found res' = products_found res
               + int (length (filter (\<lambda>t. fetched_url (store_backend upstream xml) api_key s0 t \<noteq> None) ts))"
  using assms
proof (induction ts arbitrary: i res s)
  case Nil
  then show ?case by simp
next
  case (Cons t ts)
  let ?b = "store_backend upstream xml"
  let ?f = "\<lambda>t. fetched_url ?b api_key s0 t"
  have fs: "fetched_url ?b api_key s t = ?f t" by (rule fetched_url_store)
  have step: "\<exists>res1 s1. process_target ?b api_key t res s = (None, res1, s1) \<and> store_ok s1
      \<and> st_terms s1 = st_terms s \<and> st_now s1 = st_now s
      \<and> snd ` set (row_keys s) \<subseteq> snd ` set (row_keys s1)
      \<and> (\<forall>U. ?f t = Some U \<longrightarrow> Some U \<in> snd ` set (row_keys s1))
      \<and> products_found res1 = products_found res + (if ?f t \<noteq> None then 1 else 0)"
  proof (cases "?f t")
    case None
    with fs have "fetched_url ?b api_key s t = None" by simp
    from process_target_store_skip[OF this, of res] Cons.prems None
    show ?thesis by (intro exI[of _ res] exI[of _ s]) simp
  next
    case (Some U)
    with fs have fu: "fetched_url ?b api_key s t = Some U" by simp
    show ?thesis
    proof (cases "Some U \<in> snd ` set (row_keys s)")
      case True
      from process_target_store_update[OF Cons.prems fu True, of res]
      obtain s1 where s1: "process_target ?b api_key t res s
           = (None, res\<lparr>products_updated := products_updated res + 1,
                         products_found := products_found res + 1\<rparr>, s1)"
          "row_keys s1 = row_keys s" "st_available s1" "st_terms s1 = st_terms s" "st_now s1 = st_now s"
        by (elim exE conjE)
      from Cons.prems s1(2,3) have ok1: "store_ok s1" by (simp add: store_ok_def)
      from s1 ok1 Some True show ?thesis
        by (intro exI[of _ "res\<lparr>products_updated := products_updated res + 1,
                         products_found := products_found res + 1\<rparr>"] exI[of _ s1]) simp
    next
      case False
      from process_target_store_create[OF Cons.prems fu False, of res]
      obtain s1 where s1: "process_target ?b api_key t res s
           = (None, res\<lparr>products_added := products_added res + 1,
                         products_found := products_found res + 1\<rparr>, s1)"
          "row_keys s1 = row_keys s @ [(fresh_id (map fst (st_products s)), Some U)]"
          "store_ok s1" "st_terms s1 = st_terms s" "st_now s1 = st_now s"
        by (elim exE conjE)
      from s1 Some show ?thesis
        by (intro exI[of _ "res\<lparr>products_added := products_added res + 1,
                         products_found := products_found res + 1\<rparr>"] exI[of _ s1]) auto
    qed
  qed
  then obtain res1 s1 where s1: "process_target ?b api_key t res s = (None, res1, s1)" "store_ok s1"
      "st_terms s1 = st_terms s" "st_now s1 = st_now s"
      "snd ` set (row_keys s) \<subseteq> snd ` set (row_keys s1)"
      "\<forall>U. ?f t = Some U \<longrightarrow> Some U \<in> snd ` set (row_keys s1)"
      "products_found res1 = products_found res + (if ?f t \<noteq> None then 1 else 0)"
    by (elim exE conjE)
  from s1(1) have st: "scrape_loop ?b api_key False other_limit i (t # ts) res s
            = scrape_loop ?b api_key False other_limit (Suc i) ts res1 s1" by simp
  from Cons.IH[OF s1(2), of "Suc i" res1]
  obtain res' s' where r: "scrape_loop ?b api_key False other_limit (Suc i) ts res1 s1 = (res', s')"
      "store_ok s'" "st_terms s' = st_terms s1" "st_now s' = st_now s1"
      "snd ` set (row_keys s1) \<subseteq> snd ` set (row_keys s')"
      "\<forall>t\<in>set ts. \<forall>U. ?f t = Some U \<longrightarrow> Some U \<in> snd ` set (row_keys s')"
      "products_found res' = products_found res1 + int (length (filter (\<lambda>t. ?f t \<noteq> None) ts))"
    by (elim exE conjE)
  from s1(6) r(5) have a: "\<forall>U. ?f t = Some U \<longrightarrow> Some U \<in> snd ` set (row_keys s')" by blast
  from s1(5) r(5) have b: "snd ` set (row_keys s) \<subseteq> snd ` set (row_keys s')" by blast
  from st r(1) have c: "scrape_loop ?b api_key False other_limit i (t # ts) res s = (res', s')" by simp
  from s1(7) r(7) have d: "products_found res' = products_found res
               + int (length (filter (\<lambda>t. ?f t \<noteq> None) (t # ts)))" by simp
  from a r(6) have e: "\<forall>t'\<in>set (t # ts). \<forall>U. ?f t' = Some U \<longrightarrow> Some U \<in> snd ` set (row_keys s')"
    by simp
  from c r(2) r(3) s1(3) r(4) s1(4) b e d show ?case
    by (intro exI[of _ res'] exI[of _ s'] conjI) simp_all
qed


lemma load_targets_store:
  "load_targets (store_backend upstream xml) urls s
     = (fst (load_targets (store_backend upstream xml) urls s), s)"
  by (simp add: load_targets_def store_backend_def)

lemma load_targets_store_eq:
  assumes "st_terms s' = st_terms s" "st_available s' = st_available s"
  shows "fst (load_targets (store_backend upstream xml) urls s')
       = fst (load_targets (store_backend upstream xml) urls s)"
  using assms by (simp add: load_targets_def store_backend_def)

lemma scrape_loop_attempted:
  "scrape_loop b api_key test_mode test_limit 0 ts res s
     = scrape_loop b api_key False test_limit 0 (attempted test_mode test_limit ts) res s"
  using scrape_loop_take[of b api_key test_limit 0 ts res s test_limit]
  by (simp add: attempted_def)

lemma fetched_url_no_key:
  assumes "\<not> truthy api_key"
  shows "fetched_url b api_key w t = None"
  using assms
  by (auto simp: fetched_url_def fetch_work_details_def truthy_def split: option.splits)

lemma scrape_store_cases:
  assumes "scrape (store_backend upstream xml) api_key test_mode test_limit urls s = (Inr r, s')"
  shows "(if \<not> truthy api_key \<or> fst (load_targets (store_backend upstream xml) urls s) = []
          then products_found r = 0 \<and> products_added r = 0 \<and> products_updated r = 0 \<and> s' = s
          else \<exists>res. scrape_loop (store_backend upstream xml) api_key test_mode test_limit 0
                        (fst (load_targets (store_backend upstream xml) urls s)) initial_results s
                       = (res, s')
                 \<and> products_found r = products_found res
                 \<and> products_added r = products_added res
                 \<and> products_updated r = products_updated res)"
proof -
  let ?b = "store_backend upstream xml"
  let ?ts = "fst (load_targets ?b urls s)"
  have l: "load_targets ?b urls s = (?ts, s)" by (rule load_targets_store)
  show ?thesis
  proof (cases "truthy api_key")
    case False
    from scrape_try_missing_key[OF False, of ?b test_mode test_limit urls "utcnow ?b s" s]
    obtain r0 where r0: "scrape_try ?b api_key test_mode test_limit urls (utcnow ?b s) s = (Inr r0, s)"
      "products_found r0 = 0" "products_added r0 = 0" "products_updated r0 = 0"
      by (elim exE conjE)
    from scrape_of_try[OF r0(1)] assms have "r = r0" "s' = s" by simp_all
    with r0 False show ?thesis by simp
  next
    case True
    show ?thesis
    proof (cases "?ts = []")
      case e: True
      with l have l0: "load_targets ?b urls s = ([], s)" by simp
      from scrape_try_no_targets[OF True l0, of test_mode test_limit "utcnow ?b s"]
      obtain r0 where r0: "scrape_try ?b api_key test_mode test_limit urls (utcnow ?b s) s = (Inr r0, s)"
        "products_found r0 = 0" "products_added r0 = 0" "products_updated r0 = 0"
        by (elim exE conjE)
      from scrape_of_try[OF r0(1)] assms have "r = r0" "s' = s" by simp_all
      with r0 e show ?thesis by simp
    next
      case ne: False
      obtain res s2 where sl: "scrape_loop ?b api_key test_mode test_limit 0 ?ts initial_results s = (res, s2)"
        by (cases "scrape_loop ?b api_key test_mode test_limit 0 ?ts initial_results s")
      from scrape_try_finished[OF True l ne sl, where st="utcnow ?b s"]
      obtain r0 where r0: "scrape_try ?b api_key test_mode test_limit urls (utcnow ?b s) s = (Inr r0, s2)"
        "products_found r0 = products_found res" "products_added r0 = products_added res"
        "products_updated r0 = products_updated res"
        by (elim exE conjE)
      from scrape_of_try[OF r0(1)] assms have "r = r0" "s' = s2" by simp_all
      with r0 sl True ne show ?thesis by simp
    qed
  qed
qed


lemma row_keys_length: "length (row_keys s) = length (st_products s)"
  by (simp add: row_keys_def)

text \<open>
  C5. Over the row store of the shared helpers, with an upstream whose answer depends on
  the request alone: start from a store that answers and whose row identifiers are
  distinct, run \<^verbatim>\<open>scrape\<close>, and run it again with the same arguments at any later time.
  The second run adds no product, updates one product for each attempted target whose
  fetch succeeds, finds as many products as the first run, and leaves the number of rows
  as it was.
\<close>

theorem scrape_twice_updates_only:
  assumes "st_available w0" and "distinct (map fst (st_products w0))"
    and "scrape (store_backend upstream xml) api_key test_mode test_limit urls w0 = (Inr r1, w1)"
    and "scrape (store_backend upstream xml) api_key test_mode test_limit urls (w1\<lparr>st_now := later\<rparr>)
           = (Inr r2, w2)"
  shows "products_added r2 = 0
       \<and> products_updated r2
           = int (length (filter (\<lambda>t. fetched_url (store_backend upstream xml) api_key w0 t \<noteq> None)
                    (attempted test_mode test_limit
                       (fst (load_targets (store_backend upstream xml) urls w0)))))
       \<and> products_found r2 = products_updated r2
       \<and> products_found r1 = products_found r2
       \<and> length (st_products w2) = length (st_products w1)"
proof -
  let ?b = "store_backend upstream xml"
  let ?ts = "fst (load_targets ?b urls w0)"
  let ?A = "attempted test_mode test_limit ?ts"
  let ?f = "\<lambda>t. fetched_url ?b api_key w0 t"
  let ?n = "int (length (filter (\<lambda>t. ?f t \<noteq> None) ?A))"
  let ?w1 = "w1\<lparr>st_now := later\<rparr>"
  from assms(1,2) have ok0: "store_ok w0" by (simp add: store_ok_def map_fst_row_keys)
  note c1 = scrape_store_cases[OF assms(3)]
  note c2 = scrape_store_cases[OF assms(4)]
  show ?thesis
  proof (cases "\<not> truthy api_key \<or> ?ts = []")
    case True
    with c1 have r1: "products_found r1 = 0" "w1 = w0" by simp_all
    from r1(2) have "fst (load_targets ?b urls ?w1) = ?ts"
      using load_targets_store_eq[of ?w1 w0 upstream xml urls] by simp
    with True c2 have r2: "products_found r2 = 0" "products_added r2 = 0" "products_updated r2 = 0"
        "w2 = ?w1" by simp_all
    have "?n = 0"
    proof (cases "truthy api_key")
      case False
      then show ?thesis by (simp add: fetched_url_no_key)
    next
      case t: True
      with True have "?ts = []" by simp
      then show ?thesis by (simp add: attempted_def)
    qed
    with r1 r2 show ?thesis by simp
  next
    case False
    with c1 obtain res1 where l1: "scrape_loop ?b api_key test_mode test_limit 0 ?ts initial_results w0
                       = (res1, w1)" "products_found r1 = products_found res1"
      by auto
    from l1(1) have l1': "scrape_loop ?b api_key False test_limit 0 ?A initial_results w0 = (res1, w1)"
      by (simp only: scrape_loop_attempted[symmetric])
    from scrape_loop_store_first[OF ok0, of upstream xml api_key test_limit 0 ?A initial_results w0] l1'
    have a: "store_ok w1" "st_terms w1 = st_terms w0"
        "\<forall>t\<in>set ?A. \<forall>U. ?f t = Some U \<longrightarrow> Some U \<in> snd ` set (row_keys w1)"
        "products_found res1 = products_found initial_results + ?n"
      by auto
    have rk: "row_keys ?w1 = row_keys w1" by (simp add: row_keys_def)
    from a(1) rk have ok1: "store_ok ?w1" by (simp add: store_ok_def)
    from a(1) assms(1) have av: "st_available ?w1 = st_available w0" by (simp add: store_ok_def)
    from a(2) have te: "st_terms ?w1 = st_terms w0" by simp
    have ts2: "fst (load_targets ?b urls ?w1) = ?ts"
      by (rule load_targets_store_eq[OF te av])
    with False c2 obtain res2 where l2: "scrape_loop ?b api_key test_mode test_limit 0 ?ts initial_results ?w1
                       = (res2, w2)" "products_found r2 = products_found res2"
        "products_added r2 = products_added res2" "products_updated r2 = products_updated res2"
      by auto
    from l2(1) have l2': "scrape_loop ?b api_key False test_limit 0 ?A initial_results ?w1 = (res2, w2)"
      by (simp only: scrape_loop_attempted[symmetric])
    from a(3) rk have k: "\<forall>t\<in>set ?A. \<forall>U. ?f t = Some U \<longrightarrow> Some U \<in> snd ` set (row_keys ?w1)"
      by simp
    from scrape_loop_store_known[OF ok1 k, of test_limit 0 initial_results] l2'
    have b: "row_keys w2 = row_keys ?w1" "products_added res2 = products_added initial_results"
        "products_updated res2 = products_updated initial_results + ?n"
        "products_found res2 = products_found initial_results + ?n"
      by auto
    from b(1) rk have "length (row_keys w2) = length (row_keys w1)" by simp
    then have len: "length (st_products w2) = length (st_products w1)" by (simp add: row_keys_length)
    from l1(2) a(4) l2(2-4) b(2-4) len show ?thesis by (simp add: initial_results_def)
  qed
qed


theorem scrape_twice_updates_only_witness:
  "st_available empty_store \<and> distinct (map fst (st_products empty_store))
   \<and> scrape (store_backend example_upstream example_xml) (Some ''k'') False 5 (Some [''35356138''])
        empty_store = (Inr first_report, once_store)
   \<and> scrape (store_backend example_upstream example_xml) (Some ''k'') False 5 (Some [''35356138''])
        (once_store\<lparr>st_now := later_clock\<rparr>) = (Inr second_report, twice_store)
   \<and> products_added second_report = 0
   \<and> products_found second_report = products_updated second_report
   \<and> products_found first_report = products_found second_report
   \<and> length (st_products twice_store) = length (st_products once_store)
   \<and> products_updated second_report = 1"
proof -
  let ?b = "store_backend example_upstream example_xml"
  have a: "st_available empty_store" by (simp add: empty_store_def)
  have d: "distinct (map fst (st_products empty_store))" by (simp add: empty_store_def)
  have r1: "scrape ?b (Some ''k'') False 5 (Some [''35356138'']) empty_store
              = (Inr first_report, once_store)" by code_simp
  have r2: "scrape ?b (Some ''k'') False 5 (Some [''35356138'']) (once_store\<lparr>st_now := later_clock\<rparr>)
              = (Inr second_report, twice_store)" by code_simp
  note t = scrape_twice_updates_only[OF a d r1 r2]
  have u: "products_updated second_report = 1" by (simp add: second_report_def)
  from a d r1 r2 t[THEN conjunct1] t[THEN conjunct2, THEN conjunct2, THEN conjunct1]
    t[THEN conjunct2, THEN conjunct2, THEN conjunct2, THEN conjunct1]
    t[THEN conjunct2, THEN conjunct2, THEN conjunct2, THEN conjunct2] u
  show ?thesis by (intro conjI)
qed

end
